theory Spec2Isabelle
  imports Main "HOL-Library.Word"
begin


section \<open>Go values: errors, panics, nil\<close>

text \<open>
  Go errors as values. \<open>ErrorsNew msg\<close> is \<^verbatim>\<open>errors.New(msg)\<close>. \<open>Errorf format args cause\<close>
  is \<^verbatim>\<open>fmt.Errorf(format, ...)\<close>, kept as its format string, its string arguments in order
  and the error wrapped by \<^verbatim>\<open>%w\<close>, if there is one. \<open>ErrUnknownExtensionOptions\<close> is the
  registered SDK error of that name. \<open>Wrapf err msg\<close> is \<^verbatim>\<open>errorsmod.Wrapf(err, ...)\<close>: the
  wrapped error and the formatted description (the only format used is a text followed by
  \<^verbatim>\<open>%s\<close> of a string, which is that text followed by the string).
\<close>

datatype error =
    ErrorsNew string
  | Errorf string "string list" "error option"
  | ErrUnknownExtensionOptions
  | Wrapf error string

text \<open>A Go call either returns its results or panics (nil dereference, call of a nil func).\<close>

datatype 'a go = Panic | Ret 'a

section \<open>Transactions and extension options\<close>

text \<open>
  \<^verbatim>\<open>codectypes.Any\<close>: a type URL and a payload. The extension options of a transaction are a
  slice of pointers to \<open>Any\<close>; a nil pointer is \<open>None\<close>, and the generated getter
  \<^verbatim>\<open>GetTypeUrl\<close> answers the empty string on a nil receiver.
\<close>

record Any =
  TypeUrl :: string
  Value :: "8 word list"

definition GetTypeUrl :: "Any option \<Rightarrow> string" where
  "GetTypeUrl m = (case m of None \<Rightarrow> [] | Some a \<Rightarrow> TypeUrl a)"

text \<open>
  \<^verbatim>\<open>sdk.Tx\<close> is an interface. The handler only asks whether the transaction also implements
  \<^verbatim>\<open>authante.HasExtensionOptionsTx\<close> and, if so, for \<^verbatim>\<open>GetExtensionOptions()\<close>:
  \<open>asHasExtensionOptionsTx\<close> is \<open>None\<close> when the type assertion fails and the list of
  options otherwise. Everything else of the transaction is the opaque \<open>txBody\<close>.
\<close>

record 'b Tx =
  txBody :: 'b
  asHasExtensionOptionsTx :: "Any option list option"

section \<open>Handlers and decorators\<close>

text \<open>
  \<^verbatim>\<open>sdk.AnteHandler\<close> is \<^verbatim>\<open>func(ctx, tx, simulate) (newCtx, err)\<close>. The context \<open>'c\<close> is
  passed and returned by value; the stores, accounts and observers that a handler reaches
  through references are the world \<open>'w\<close>, threaded explicitly. A handler may panic.
  A handler variable may be nil: \<open>None\<close>.
\<close>

type_synonym ('c, 'w) outcome = "(('c \<times> error option) \<times> 'w) go"

type_synonym ('c, 'b, 'w) AnteHandler =
  "'c \<Rightarrow> 'b Tx \<Rightarrow> bool \<Rightarrow> 'w \<Rightarrow> ('c, 'w) outcome"

text \<open>
  \<^verbatim>\<open>AnteDecorator.AnteHandle(ctx, tx, simulate, next)\<close>: a decorator receives the rest of
  the chain as \<open>next\<close>.
\<close>

type_synonym ('c, 'b, 'w) AnteHandle =
  "'c \<Rightarrow> 'b Tx \<Rightarrow> bool \<Rightarrow> ('c, 'b, 'w) AnteHandler \<Rightarrow> 'w \<Rightarrow> ('c, 'w) outcome"

definition call :: "('c, 'b, 'w) AnteHandler option \<Rightarrow> ('c, 'b, 'w) AnteHandler" where
  "call h ctx tx simulate w = (case h of None \<Rightarrow> Panic | Some f \<Rightarrow> f ctx tx simulate w)"

section \<open>The handler options (package ante)\<close>

text \<open>
  Keepers, codecs, registries and policy functions are opaque references of type \<open>'k\<close>;
  an interface, pointer or func field may be nil (\<open>None\<close>). \<open>FeeMarketKeeper\<close> is a struct
  value and \<open>MaxTxGasWanted\<close> a \<^verbatim>\<open>uint64\<close>: neither can be nil. The pending-tx listener is
  a func of type \<open>'l\<close>. Of wasmd's \<open>NodeConfig\<close> only the simulation gas limit, a pointer to a
  \<^verbatim>\<open>uint64\<close>, is read; \<open>GetGasRegister k\<close> stands for what the method of that name returns
  for the WASM keeper \<open>k\<close>.
\<close>

record NodeConfig =
  SimulationGasLimit :: "64 word option"

datatype 'k GasRegister = GetGasRegister 'k

record ('k, 'l) HandlerOptions =
  AccountKeeper :: "'k option"
  BankKeeper :: "'k option"
  FeegrantKeeper :: "'k option"
  SignModeHandler :: "'k option"
  SignatureGasConsumer :: "'k option"
  TxFeeChecker :: "'k option"
  ExtensionOptionChecker :: "'k option"
  Cdc :: "'k option"
  EvmKeeper :: "'k option"
  FeeMarketKeeper :: "'k"
  MaxTxGasWanted :: "64 word"
  PendingTxListener :: "'l option"
  IBCKeeper :: "'k option"
  NodeConfig :: "NodeConfig option"
  WasmKeeper :: "'k option"
  TXCounterStoreService :: "'k option"
  CircuitKeeper :: "'k option"

section \<open>Decorator values\<close>

text \<open>
  The decorators come from the Cosmos SDK, cosmos/evm, wasmd, the circuit module and
  ibc-go. A decorator value is the constructor that built it together with the arguments
  it was given. One constructor can fail: wasmd's \<^verbatim>\<open>NewLimitSimulationGasDecorator\<close> panics
  when it is given a pointer to a zero gas limit (\<^verbatim>\<open>registerWasmModules\<close> replaces a nil or
  zero limit by a default for that reason), and builds the value
  \<open>LimitSimulationGasDecorator\<close> otherwise.
\<close>

datatype Msg = MsgEthereumTx | MsgCreateVestingAccount

datatype MsgTypeURL = MsgTypeURL Msg

datatype ('k, 'l) AnteDecorator =
    NewRejectMessagesDecorator
  | NewAuthzLimiterDecorator "MsgTypeURL list"
  | NewSetUpContextDecorator
  | LimitSimulationGasDecorator "64 word option"
  | NewCountTXDecorator "'k option"
  | NewGasRegisterDecorator "'k GasRegister"
  | NewTxContractsDecorator
  | NewCircuitBreakerDecorator "'k option"
  | NewExtensionOptionsDecorator "'k option"
  | NewValidateBasicDecorator
  | NewTxTimeoutHeightDecorator
  | NewValidateMemoDecorator "'k option"
  | NewMinGasPriceDecorator 'k "'k option"
  | NewConsumeGasForTxSizeDecorator "'k option"
  | NewDeductFeeDecorator "'k option" "'k option" "'k option" "'k option"
  | NewSetPubKeyDecorator "'k option"
  | NewValidateSigCountDecorator "'k option"
  | NewSigGasConsumeDecorator "'k option" "'k option"
  | NewSigVerificationDecorator "'k option" "'k option"
  | NewIncrementSequenceDecorator "'k option"
  | NewRedundantRelayDecorator "'k option"
  | NewGasWantedDecorator "'k option" 'k
  | NewEVMMonoDecorator "'k option" 'k "'k option" "64 word"
  | NewTxListenerDecorator "'l option"

definition NewLimitSimulationGasDecorator :: "64 word option \<Rightarrow> ('k, 'l) AnteDecorator go" where
  "NewLimitSimulationGasDecorator gasLimit =
     (if gasLimit = Some 0 then Panic else Ret (LimitSimulationGasDecorator gasLimit))"

text \<open>
  \<^verbatim>\<open>sdk.ChainAnteDecorators\<close> (Cosmos SDK): nil for an empty chain; otherwise the handler
  that gives each decorator the rest of the chain as \<open>next\<close>, ending in the terminal
  handler that returns the context with a nil error. The behaviour \<open>ah\<close> of the decorators
  (their \<open>AnteHandle\<close> methods) is a parameter.
\<close>

fun chainFrom ::
  "(('k, 'l) AnteDecorator \<Rightarrow> ('c, 'b, 'w) AnteHandle) \<Rightarrow> ('k, 'l) AnteDecorator list
     \<Rightarrow> ('c, 'b, 'w) AnteHandler" where
  "chainFrom ah [] = (\<lambda>ctx tx simulate w. Ret ((ctx, None), w))"
| "chainFrom ah (d # ds) = (\<lambda>ctx tx simulate w. ah d ctx tx simulate (chainFrom ah ds) w)"

definition ChainAnteDecorators ::
  "(('k, 'l) AnteDecorator \<Rightarrow> ('c, 'b, 'w) AnteHandle) \<Rightarrow> ('k, 'l) AnteDecorator list
     \<Rightarrow> ('c, 'b, 'w) AnteHandler option" where
  "ChainAnteDecorators ah chain = (if chain = [] then None else Some (chainFrom ah chain))"

section \<open>app/ante: the two chains\<close>

text \<open>
  \<^verbatim>\<open>wasmDecorators\<close> evaluates the elements of its slice in order: it dereferences
  \<open>NodeConfig\<close>, calls \<^verbatim>\<open>NewLimitSimulationGasDecorator\<close>, and calls a method of \<open>WasmKeeper\<close>.
  Each of the three can panic.
\<close>

definition wasmDecorators :: "('k, 'l) HandlerOptions \<Rightarrow> ('k, 'l) AnteDecorator list go" where
  "wasmDecorators options =
     (case NodeConfig options of
        None \<Rightarrow> Panic
      | Some nodeConfig \<Rightarrow>
          (case NewLimitSimulationGasDecorator (SimulationGasLimit nodeConfig) of
             Panic \<Rightarrow> Panic
           | Ret limitSimulationGas \<Rightarrow>
               (case WasmKeeper options of
                  None \<Rightarrow> Panic
                | Some wasmKeeper \<Rightarrow>
                    Ret [limitSimulationGas,
                         NewCountTXDecorator (TXCounterStoreService options),
                         NewGasRegisterDecorator (GetGasRegister wasmKeeper),
                         NewTxContractsDecorator])))"

text \<open>The slice \<^verbatim>\<open>decorators\<close> of \<^verbatim>\<open>NewCosmosAnteHandler\<close>, after both appends.\<close>

definition cosmosDecorators :: "('k, 'l) HandlerOptions \<Rightarrow> ('k, 'l) AnteDecorator list go" where
  "cosmosDecorators options =
     (let decorators =
            [NewRejectMessagesDecorator,
             NewAuthzLimiterDecorator
               [MsgTypeURL MsgEthereumTx, MsgTypeURL MsgCreateVestingAccount],
             NewSetUpContextDecorator]
      in case wasmDecorators options of
           Panic \<Rightarrow> Panic
         | Ret wasm \<Rightarrow>
             Ret ((decorators @ wasm) @
               [NewCircuitBreakerDecorator (CircuitKeeper options),
                NewExtensionOptionsDecorator (ExtensionOptionChecker options),
                NewValidateBasicDecorator,
                NewTxTimeoutHeightDecorator,
                NewValidateMemoDecorator (AccountKeeper options),
                NewMinGasPriceDecorator (FeeMarketKeeper options) (EvmKeeper options),
                NewConsumeGasForTxSizeDecorator (AccountKeeper options),
                NewDeductFeeDecorator (AccountKeeper options) (BankKeeper options)
                  (FeegrantKeeper options) (TxFeeChecker options),
                NewSetPubKeyDecorator (AccountKeeper options),
                NewValidateSigCountDecorator (AccountKeeper options),
                NewSigGasConsumeDecorator (AccountKeeper options) (SignatureGasConsumer options),
                NewSigVerificationDecorator (AccountKeeper options) (SignModeHandler options),
                NewIncrementSequenceDecorator (AccountKeeper options),
                NewRedundantRelayDecorator (IBCKeeper options),
                NewGasWantedDecorator (EvmKeeper options) (FeeMarketKeeper options)]))"

definition NewCosmosAnteHandler ::
  "(('k, 'l) AnteDecorator \<Rightarrow> ('c, 'b, 'w) AnteHandle) \<Rightarrow> ('k, 'l) HandlerOptions
     \<Rightarrow> ('c, 'b, 'w) AnteHandler option go" where
  "NewCosmosAnteHandler ah options =
     (case cosmosDecorators options of
        Panic \<Rightarrow> Panic
      | Ret decorators \<Rightarrow> Ret (ChainAnteDecorators ah decorators))"

text \<open>The slice \<^verbatim>\<open>decorators\<close> of \<^verbatim>\<open>NewMonoEVMAnteHandler\<close>.\<close>

definition evmDecorators :: "('k, 'l) HandlerOptions \<Rightarrow> ('k, 'l) AnteDecorator list" where
  "evmDecorators options =
     [NewEVMMonoDecorator (AccountKeeper options) (FeeMarketKeeper options)
        (EvmKeeper options) (MaxTxGasWanted options),
      NewTxListenerDecorator (PendingTxListener options)]"

definition NewMonoEVMAnteHandler ::
  "(('k, 'l) AnteDecorator \<Rightarrow> ('c, 'b, 'w) AnteHandle) \<Rightarrow> ('k, 'l) HandlerOptions
     \<Rightarrow> ('c, 'b, 'w) AnteHandler option" where
  "NewMonoEVMAnteHandler ah options = ChainAnteDecorators ah (evmDecorators options)"

section \<open>app: NewAnteHandler\<close>

text \<open>
  The closure returned by \<^verbatim>\<open>NewAnteHandler\<close>, with the two handlers it captures as
  arguments.
\<close>

definition anteHandlerFunc ::
  "('c, 'b, 'w) AnteHandler option \<Rightarrow> ('c, 'b, 'w) AnteHandler option
     \<Rightarrow> ('c, 'b, 'w) AnteHandler" where
  "anteHandlerFunc cosmosAnteHandler evmAnteHandler ctx tx simulate w =
     (case asHasExtensionOptionsTx tx of
        Some opts \<Rightarrow>
          if length opts > 0 then
            (let typeURL = GetTypeUrl (opts ! 0) in
             if typeURL = ''/cosmos.evm.vm.v1.ExtensionOptionsEthereumTx'' then
               call evmAnteHandler ctx tx simulate w
             else if typeURL = ''/cosmos.evm.types.v1.ExtensionOptionDynamicFeeTx'' then
               call cosmosAnteHandler ctx tx simulate w
             else
               Ret ((ctx, Some (Wrapf ErrUnknownExtensionOptions
                      (''rejecting tx with unsupported extension option: '' @ typeURL))), w))
          else call cosmosAnteHandler ctx tx simulate w
      | None \<Rightarrow> call cosmosAnteHandler ctx tx simulate w)"

text \<open>
  \<^verbatim>\<open>NewAnteHandler\<close> returns the Go pair (handler, error): \<open>(None, Some e)\<close> when a required
  option is nil, \<open>(Some h, None)\<close> otherwise.
\<close>

definition NewAnteHandler ::
  "(('k, 'l) AnteDecorator \<Rightarrow> ('c, 'b, 'w) AnteHandle) \<Rightarrow> ('k, 'l) HandlerOptions
     \<Rightarrow> (('c, 'b, 'w) AnteHandler option \<times> error option) go" where
  "NewAnteHandler ah options =
     (if AccountKeeper options = None then
        Ret (None, Some (ErrorsNew ''account keeper is required for ante builder''))
      else if BankKeeper options = None then
        Ret (None, Some (ErrorsNew ''bank keeper is required for ante builder''))
      else if SignModeHandler options = None then
        Ret (None, Some (ErrorsNew ''sign mode handler is required for ante builder''))
      else if ExtensionOptionChecker options = None then
        Ret (None, Some (ErrorsNew ''extension option checker is required for ante builder''))
      else if TxFeeChecker options = None then
        Ret (None, Some (ErrorsNew ''tx fee checker is required for ante builder''))
      else if SignatureGasConsumer options = None then
        Ret (None, Some (ErrorsNew ''sig gas consumer is required for ante builder''))
      else if Cdc options = None then
        Ret (None, Some (ErrorsNew ''codec is required for ante builder''))
      else if EvmKeeper options = None then
        Ret (None, Some (ErrorsNew ''evm keeper is required for ante builder''))
      else if NodeConfig options = None then
        Ret (None, Some (ErrorsNew ''wasm config is required for ante builder''))
      else if TXCounterStoreService options = None then
        Ret (None, Some (ErrorsNew ''wasm store service is required for ante builder''))
      else if WasmKeeper options = None then
        Ret (None, Some (ErrorsNew ''wasm keeper is required for ante builder''))
      else if CircuitKeeper options = None then
        Ret (None, Some (ErrorsNew ''circuit keeper is required for ante builder''))
      else if IBCKeeper options = None then
        Ret (None, Some (ErrorsNew ''ibc keeper is required for ante builder''))
      else
        (case NewCosmosAnteHandler ah options of
           Panic \<Rightarrow> Panic
         | Ret cosmosAnteHandler \<Rightarrow>
             (let evmAnteHandler = NewMonoEVMAnteHandler ah options
              in Ret (Some (anteHandlerFunc cosmosAnteHandler evmAnteHandler), None))))"

section \<open>app: the inline NewAnteHandler and its options\<close>

text \<open>
  The second \<^verbatim>\<open>NewAnteHandler\<close> of the source builds both decorator slices itself. Its
  options struct embeds the SDK's \<^verbatim>\<open>authante.HandlerOptions\<close> and declares
  \<open>AccountKeeper\<close>, \<open>TxFeeChecker\<close> and \<open>ExtensionOptionChecker\<close> again at the outer
  level, where they shadow the embedded fields of the same name; \<open>BankKeeper\<close>,
  \<open>FeegrantKeeper\<close>, \<open>SignModeHandler\<close> and \<open>SigGasConsumer\<close> are promoted from the
  embedded struct.
\<close>

record 'k AuthHandlerOptions =
  auth_AccountKeeper :: "'k option"
  auth_BankKeeper :: "'k option"
  auth_ExtensionOptionChecker :: "'k option"
  auth_FeegrantKeeper :: "'k option"
  auth_SignModeHandler :: "'k option"
  auth_SigGasConsumer :: "'k option"
  auth_TxFeeChecker :: "'k option"

record ('k, 'l) AppHandlerOptions =
  app_HandlerOptions :: "'k AuthHandlerOptions"
  app_Cdc :: "'k option"
  app_EvmKeeper :: "'k option"
  app_FeeMarketKeeper :: "'k"
  app_MaxTxGasWanted :: "64 word"
  app_TxFeeChecker :: "'k option"
  app_PendingTxListener :: "'l option"
  app_IBCKeeper :: "'k option"
  app_ExtensionOptionChecker :: "'k option"
  app_AccountKeeper :: "'k option"
  app_NodeConfig :: "NodeConfig option"
  app_WasmKeeper :: "'k option"
  app_TXCounterStoreService :: "'k option"
  app_CircuitKeeper :: "'k option"

text \<open>
  The slice \<^verbatim>\<open>cosmosDecorators\<close> of the inline constructor. Its elements are evaluated in
  order; the dereference of \<open>NodeConfig\<close>, \<^verbatim>\<open>NewLimitSimulationGasDecorator\<close> and the method
  call on \<open>WasmKeeper\<close> can panic.
\<close>

definition inlineCosmosDecorators ::
  "('k, 'l) AppHandlerOptions \<Rightarrow> ('k, 'l) AnteDecorator list go" where
  "inlineCosmosDecorators options =
     (case app_NodeConfig options of
        None \<Rightarrow> Panic
      | Some nodeConfig \<Rightarrow>
          (case NewLimitSimulationGasDecorator (SimulationGasLimit nodeConfig) of
             Panic \<Rightarrow> Panic
           | Ret limitSimulationGas \<Rightarrow>
          (case app_WasmKeeper options of
             None \<Rightarrow> Panic
           | Some wasmKeeper \<Rightarrow>
               Ret [NewRejectMessagesDecorator,
                    NewAuthzLimiterDecorator
                      [MsgTypeURL MsgEthereumTx, MsgTypeURL MsgCreateVestingAccount],
                    NewSetUpContextDecorator,
                    limitSimulationGas,
                    NewCountTXDecorator (app_TXCounterStoreService options),
                    NewGasRegisterDecorator (GetGasRegister wasmKeeper),
                    NewTxContractsDecorator,
                    NewCircuitBreakerDecorator (app_CircuitKeeper options),
                    NewExtensionOptionsDecorator (app_ExtensionOptionChecker options),
                    NewValidateBasicDecorator,
                    NewTxTimeoutHeightDecorator,
                    NewValidateMemoDecorator (app_AccountKeeper options),
                    NewMinGasPriceDecorator (app_FeeMarketKeeper options) (app_EvmKeeper options),
                    NewConsumeGasForTxSizeDecorator (app_AccountKeeper options),
                    NewDeductFeeDecorator (app_AccountKeeper options)
                      (auth_BankKeeper (app_HandlerOptions options))
                      (auth_FeegrantKeeper (app_HandlerOptions options))
                      (app_TxFeeChecker options),
                    NewSetPubKeyDecorator (app_AccountKeeper options),
                    NewValidateSigCountDecorator (app_AccountKeeper options),
                    NewSigGasConsumeDecorator (app_AccountKeeper options)
                      (auth_SigGasConsumer (app_HandlerOptions options)),
                    NewSigVerificationDecorator (app_AccountKeeper options)
                      (auth_SignModeHandler (app_HandlerOptions options)),
                    NewIncrementSequenceDecorator (app_AccountKeeper options),
                    NewRedundantRelayDecorator (app_IBCKeeper options),
                    NewGasWantedDecorator (app_EvmKeeper options) (app_FeeMarketKeeper options)])))"

text \<open>The slice \<^verbatim>\<open>evmDecorators\<close> of the inline constructor.\<close>

definition inlineEvmDecorators ::
  "('k, 'l) AppHandlerOptions \<Rightarrow> ('k, 'l) AnteDecorator list" where
  "inlineEvmDecorators options =
     [NewEVMMonoDecorator (app_AccountKeeper options) (app_FeeMarketKeeper options)
        (app_EvmKeeper options) (app_MaxTxGasWanted options),
      NewTxListenerDecorator (app_PendingTxListener options)]"

definition NewAnteHandler_inline ::
  "(('k, 'l) AnteDecorator \<Rightarrow> ('c, 'b, 'w) AnteHandle) \<Rightarrow> ('k, 'l) AppHandlerOptions
     \<Rightarrow> (('c, 'b, 'w) AnteHandler option \<times> error option) go" where
  "NewAnteHandler_inline ah options =
     (if app_AccountKeeper options = None then
        Ret (None, Some (ErrorsNew ''account keeper is required for ante builder''))
      else if auth_BankKeeper (app_HandlerOptions options) = None then
        Ret (None, Some (ErrorsNew ''bank keeper is required for ante builder''))
      else if auth_SignModeHandler (app_HandlerOptions options) = None then
        Ret (None, Some (ErrorsNew ''sign mode handler is required for ante builder''))
      else if app_ExtensionOptionChecker options = None then
        Ret (None, Some (ErrorsNew ''extension option checker is required for ante builder''))
      else if app_TxFeeChecker options = None then
        Ret (None, Some (ErrorsNew ''tx fee checker is required for ante builder''))
      else if auth_SigGasConsumer (app_HandlerOptions options) = None then
        Ret (None, Some (ErrorsNew ''sig gas consumer is required for ante builder''))
      else if app_Cdc options = None then
        Ret (None, Some (ErrorsNew ''codec is required for ante builder''))
      else if app_EvmKeeper options = None then
        Ret (None, Some (ErrorsNew ''evm keeper is required for ante builder''))
      else if app_NodeConfig options = None then
        Ret (None, Some (ErrorsNew ''wasm config is required for ante builder''))
      else if app_TXCounterStoreService options = None then
        Ret (None, Some (ErrorsNew ''wasm store service is required for ante builder''))
      else if app_WasmKeeper options = None then
        Ret (None, Some (ErrorsNew ''wasm keeper is required for ante builder''))
      else if app_CircuitKeeper options = None then
        Ret (None, Some (ErrorsNew ''circuit keeper is required for ante builder''))
      else if app_IBCKeeper options = None then
        Ret (None, Some (ErrorsNew ''ibc keeper is required for ante builder''))
      else
        (case inlineCosmosDecorators options of
           Panic \<Rightarrow> Panic
         | Ret cosmosDecorators' \<Rightarrow>
             (let cosmosAnteHandler = ChainAnteDecorators ah cosmosDecorators';
                  evmDecorators' = inlineEvmDecorators options;
                  evmAnteHandler = ChainAnteDecorators ah evmDecorators'
              in Ret (Some (anteHandlerFunc cosmosAnteHandler evmAnteHandler), None))))"

text \<open>
  The options of package ante that carry the same values as the options of the inline
  constructor: each field is read the way Go resolves the selector of that name
  (\<open>SigGasConsumer\<close> is called \<open>SignatureGasConsumer\<close> in package ante).
\<close>

definition toAnteOptions :: "('k, 'l) AppHandlerOptions \<Rightarrow> ('k, 'l) HandlerOptions" where
  "toAnteOptions options =
     \<lparr> AccountKeeper = app_AccountKeeper options,
       BankKeeper = auth_BankKeeper (app_HandlerOptions options),
       FeegrantKeeper = auth_FeegrantKeeper (app_HandlerOptions options),
       SignModeHandler = auth_SignModeHandler (app_HandlerOptions options),
       SignatureGasConsumer = auth_SigGasConsumer (app_HandlerOptions options),
       TxFeeChecker = app_TxFeeChecker options,
       ExtensionOptionChecker = app_ExtensionOptionChecker options,
       Cdc = app_Cdc options,
       EvmKeeper = app_EvmKeeper options,
       FeeMarketKeeper = app_FeeMarketKeeper options,
       MaxTxGasWanted = app_MaxTxGasWanted options,
       PendingTxListener = app_PendingTxListener options,
       IBCKeeper = app_IBCKeeper options,
       NodeConfig = app_NodeConfig options,
       WasmKeeper = app_WasmKeeper options,
       TXCounterStoreService = app_TXCounterStoreService options,
       CircuitKeeper = app_CircuitKeeper options \<rparr>"

section \<open>The decorator contract\<close>

text \<open>
  The decorators themselves are library code. What the pipeline asks of a decorator is
  the pass-or-abort contract: it inspects and transforms the context (and the world) and
  then either returns its own error, without calling \<open>next\<close>, or calls \<open>next\<close> exactly
  once on its context and returns what \<open>next\<close> returns. A decorator that obeys the
  contract is given by its step.
\<close>

datatype 'c verdict = Abort 'c error | Pass 'c

type_synonym ('c, 'b, 'w) step = "'c \<Rightarrow> 'b Tx \<Rightarrow> bool \<Rightarrow> 'w \<Rightarrow> 'c verdict \<times> 'w"

definition passOrAbort :: "('c, 'b, 'w) step \<Rightarrow> ('c, 'b, 'w) AnteHandle" where
  "passOrAbort st ctx tx simulate next w =
     (case st ctx tx simulate w of
        (Abort ctx' err, w') \<Rightarrow> Ret ((ctx', Some err), w')
      | (Pass ctx', w') \<Rightarrow> next ctx' tx simulate w')"

text \<open>Running the steps of a list of decorators in order, stopping at the first abort.\<close>

fun runSteps ::
  "(('k, 'l) AnteDecorator \<Rightarrow> ('c, 'b, 'w) step) \<Rightarrow> ('k, 'l) AnteDecorator list
     \<Rightarrow> 'c \<Rightarrow> 'b Tx \<Rightarrow> bool \<Rightarrow> 'w \<Rightarrow> ('c \<times> error option) \<times> 'w" where
  "runSteps st [] ctx tx simulate w = ((ctx, None), w)"
| "runSteps st (d # ds) ctx tx simulate w =
     (case st d ctx tx simulate w of
        (Abort ctx' err, w') \<Rightarrow> ((ctx', Some err), w')
      | (Pass ctx', w') \<Rightarrow> runSteps st ds ctx' tx simulate w')"

text \<open>
  Constructing the handler and invoking it once, as the node does for a transaction:
  a panic if construction panicked or gave no handler.
\<close>

definition process ::
  "(('k, 'l) AnteDecorator \<Rightarrow> ('c, 'b, 'w) AnteHandle) \<Rightarrow> ('k, 'l) HandlerOptions
     \<Rightarrow> ('c, 'b, 'w) AnteHandler" where
  "process ah options ctx tx simulate w =
     (case NewAnteHandler ah options of
        Panic \<Rightarrow> Panic
      | Ret (h, err) \<Rightarrow> call h ctx tx simulate w)"

section \<open>The dispatcher, in the words of the specification\<close>

text \<open>
  The extension options a transaction exposes: none when it does not implement the
  interface. \<open>firstTypeUrl\<close> is the type identifier of the leading option, if there is
  one. The two known identifiers select a chain; \<open>selectedChain\<close> is the dispatcher's
  contract: no option or the dynamic-fee identifier selects the Cosmos chain, the
  Ethereum-transaction identifier the EVM chain, anything else no chain.
\<close>

definition extensionOptionsOf :: "'b Tx \<Rightarrow> Any option list" where
  "extensionOptionsOf tx = (case asHasExtensionOptionsTx tx of None \<Rightarrow> [] | Some opts \<Rightarrow> opts)"

definition firstTypeUrl :: "'b Tx \<Rightarrow> string option" where
  "firstTypeUrl tx =
     (case extensionOptionsOf tx of [] \<Rightarrow> None | opt # _ \<Rightarrow> Some (GetTypeUrl opt))"

definition ethereumTxUrl :: string where
  "ethereumTxUrl = ''/cosmos.evm.vm.v1.ExtensionOptionsEthereumTx''"

definition dynamicFeeTxUrl :: string where
  "dynamicFeeTxUrl = ''/cosmos.evm.types.v1.ExtensionOptionDynamicFeeTx''"

definition unknownExtension :: "string \<Rightarrow> error" where
  "unknownExtension url =
     Wrapf ErrUnknownExtensionOptions (''rejecting tx with unsupported extension option: '' @ url)"

definition selectedChain ::
  "('k, 'l) AnteDecorator list \<Rightarrow> ('k, 'l) AnteDecorator list \<Rightarrow> 'b Tx
     \<Rightarrow> ('k, 'l) AnteDecorator list option" where
  "selectedChain cosmosChain evmChain tx =
     (case firstTypeUrl tx of
        None \<Rightarrow> Some cosmosChain
      | Some url \<Rightarrow>
          if url = ethereumTxUrl then Some evmChain
          else if url = dynamicFeeTxUrl then Some cosmosChain
          else None)"

section \<open>The options the constructor checks\<close>

text \<open>
  \<open>requiredOptionMissing\<close> says that one of the thirteen options guarded by a nil check is
  nil; \<open>requiredOptionNames\<close> are the names the error messages use for them.
\<close>

definition requiredOptionMissing :: "('k, 'l) HandlerOptions \<Rightarrow> bool" where
  "requiredOptionMissing options \<longleftrightarrow>
     AccountKeeper options = None \<or> BankKeeper options = None \<or>
     SignModeHandler options = None \<or> ExtensionOptionChecker options = None \<or>
     TxFeeChecker options = None \<or> SignatureGasConsumer options = None \<or>
     Cdc options = None \<or> EvmKeeper options = None \<or> NodeConfig options = None \<or>
     TXCounterStoreService options = None \<or> WasmKeeper options = None \<or>
     CircuitKeeper options = None \<or> IBCKeeper options = None"

definition requiredOptionNames :: "string list" where
  "requiredOptionNames =
     [''account keeper'', ''bank keeper'', ''sign mode handler'', ''extension option checker'',
      ''tx fee checker'', ''sig gas consumer'', ''codec'', ''evm keeper'', ''wasm config'',
      ''wasm store service'', ''wasm keeper'', ''circuit keeper'', ''ibc keeper'']"

section \<open>The ordering table of the Cosmos chain\<close>

text \<open>
  The steps of the pipeline as the specification names them, the step each decorator
  value implements, and the order the specification requires of the Cosmos chain.
  \<open>precedes a b xs\<close>: \<open>b\<close> occurs in \<open>xs\<close> and \<open>a\<close> occurs before its first occurrence.
  \<open>evmMono\<close> is the first decorator of the EVM chain.
\<close>

datatype stepKind =
    RejectUnsupportedMessage | AuthorizationScopeLimiter | ContextSetup
  | WasmSimulationGasCeiling | WasmTxCounting | WasmGasRegister | WasmContractAddressLimiter
  | CircuitBreaker | ExtensionOptionValidator | BasicWellFormedness | TimeoutHeight
  | MemoValidator | MinimumGasPrice | SizeBasedGasConsumption | FeeDeduction
  | PublicKeySetting | SignatureCountValidation | SignatureGasConsumption
  | SignatureVerification | SequenceIncrement | RedundantRelayFilter | GasWantedValidation
  | EVMMono | PendingTxNotifier

fun stepOf :: "('k, 'l) AnteDecorator \<Rightarrow> stepKind" where
  "stepOf NewRejectMessagesDecorator = RejectUnsupportedMessage"
| "stepOf (NewAuthzLimiterDecorator _) = AuthorizationScopeLimiter"
| "stepOf NewSetUpContextDecorator = ContextSetup"
| "stepOf (LimitSimulationGasDecorator _) = WasmSimulationGasCeiling"
| "stepOf (NewCountTXDecorator _) = WasmTxCounting"
| "stepOf (NewGasRegisterDecorator _) = WasmGasRegister"
| "stepOf NewTxContractsDecorator = WasmContractAddressLimiter"
| "stepOf (NewCircuitBreakerDecorator _) = CircuitBreaker"
| "stepOf (NewExtensionOptionsDecorator _) = ExtensionOptionValidator"
| "stepOf NewValidateBasicDecorator = BasicWellFormedness"
| "stepOf NewTxTimeoutHeightDecorator = TimeoutHeight"
| "stepOf (NewValidateMemoDecorator _) = MemoValidator"
| "stepOf (NewMinGasPriceDecorator _ _) = MinimumGasPrice"
| "stepOf (NewConsumeGasForTxSizeDecorator _) = SizeBasedGasConsumption"
| "stepOf (NewDeductFeeDecorator _ _ _ _) = FeeDeduction"
| "stepOf (NewSetPubKeyDecorator _) = PublicKeySetting"
| "stepOf (NewValidateSigCountDecorator _) = SignatureCountValidation"
| "stepOf (NewSigGasConsumeDecorator _ _) = SignatureGasConsumption"
| "stepOf (NewSigVerificationDecorator _ _) = SignatureVerification"
| "stepOf (NewIncrementSequenceDecorator _) = SequenceIncrement"
| "stepOf (NewRedundantRelayDecorator _) = RedundantRelayFilter"
| "stepOf (NewGasWantedDecorator _ _) = GasWantedValidation"
| "stepOf (NewEVMMonoDecorator _ _ _ _) = EVMMono"
| "stepOf (NewTxListenerDecorator _) = PendingTxNotifier"

definition cosmosChainOrder :: "stepKind list" where
  "cosmosChainOrder =
     [RejectUnsupportedMessage, AuthorizationScopeLimiter,
      ContextSetup,
      WasmSimulationGasCeiling, WasmTxCounting, WasmGasRegister, WasmContractAddressLimiter,
      CircuitBreaker,
      ExtensionOptionValidator, BasicWellFormedness, TimeoutHeight, MemoValidator,
      MinimumGasPrice,
      SizeBasedGasConsumption,
      FeeDeduction,
      PublicKeySetting, SignatureCountValidation, SignatureGasConsumption, SignatureVerification,
      SequenceIncrement,
      RedundantRelayFilter,
      GasWantedValidation]"

definition precedes :: "'a \<Rightarrow> 'a \<Rightarrow> 'a list \<Rightarrow> bool" where
  "precedes a b xs \<longleftrightarrow> b \<in> set xs \<and> a \<in> set (takeWhile (\<lambda>x. x \<noteq> b) xs)"


section \<open>Properties of decorator behaviours\<close>

text \<open>
  \<open>obeys ah st ds\<close>: each decorator of \<open>ds\<close> behaves as the pass-or-abort decorator of its
  step. For a reading \<open>seq\<close> of one signer's sequence number in the world:
  \<open>preservesSeq\<close> says that the steps of \<open>ds\<close> leave it alone, \<open>incrementsSeq\<close> that a
  sequence-increment step that passes advances it by one, and \<open>signatureRejected\<close> that
  the signature-verification step aborts on this transaction in whatever state it is
  reached (the transaction has a bad signature). \<open>beforeIncrement\<close> are the decorators in
  front of the sequence increment, \<open>exceptIncrement\<close> all but the sequence increment.
\<close>

definition obeys ::
  "(('k, 'l) AnteDecorator \<Rightarrow> ('c, 'b, 'w) AnteHandle) \<Rightarrow> (('k, 'l) AnteDecorator \<Rightarrow> ('c, 'b, 'w) step)
     \<Rightarrow> ('k, 'l) AnteDecorator list \<Rightarrow> bool" where
  "obeys ah st ds \<longleftrightarrow> (\<forall>d \<in> set ds. ah d = passOrAbort (st d))"

fun aborted :: "'c verdict \<Rightarrow> bool" where
  "aborted (Abort _ _) = True"
| "aborted (Pass _) = False"

definition preservesSeq ::
  "('w \<Rightarrow> nat) \<Rightarrow> (('k, 'l) AnteDecorator \<Rightarrow> ('c, 'b, 'w) step) \<Rightarrow> 'b Tx \<Rightarrow> bool
     \<Rightarrow> ('k, 'l) AnteDecorator list \<Rightarrow> bool" where
  "preservesSeq seq st tx simulate ds \<longleftrightarrow>
     (\<forall>d \<in> set ds. \<forall>ctx w. seq (snd (st d ctx tx simulate w)) = seq w)"

definition incrementsSeq ::
  "('w \<Rightarrow> nat) \<Rightarrow> (('k, 'l) AnteDecorator \<Rightarrow> ('c, 'b, 'w) step) \<Rightarrow> 'b Tx \<Rightarrow> bool
     \<Rightarrow> ('k, 'l) AnteDecorator list \<Rightarrow> bool" where
  "incrementsSeq seq st tx simulate ds \<longleftrightarrow>
     (\<forall>d \<in> set ds. stepOf d = SequenceIncrement \<longrightarrow>
        (\<forall>ctx w ctx' w'. st d ctx tx simulate w = (Pass ctx', w') \<longrightarrow> seq w' = seq w + 1))"

definition signatureRejected ::
  "(('k, 'l) AnteDecorator \<Rightarrow> ('c, 'b, 'w) step) \<Rightarrow> 'b Tx \<Rightarrow> bool
     \<Rightarrow> ('k, 'l) AnteDecorator list \<Rightarrow> bool" where
  "signatureRejected st tx simulate ds \<longleftrightarrow>
     (\<forall>d \<in> set ds. stepOf d = SignatureVerification \<longrightarrow>
        (\<forall>ctx w. aborted (fst (st d ctx tx simulate w))))"

definition beforeIncrement :: "('k, 'l) AnteDecorator list \<Rightarrow> ('k, 'l) AnteDecorator list" where
  "beforeIncrement ds = takeWhile (\<lambda>d. stepOf d \<noteq> SequenceIncrement) ds"

definition exceptIncrement :: "('k, 'l) AnteDecorator list \<Rightarrow> ('k, 'l) AnteDecorator list" where
  "exceptIncrement ds = filter (\<lambda>d. stepOf d \<noteq> SequenceIncrement) ds"

section \<open>The pending-tx notifier and its observers\<close>

text \<open>
  The contract of the pending-tx notifier (cosmos/evm's \<^verbatim>\<open>TxListenerDecorator\<close>): when a
  listener is registered it is called with each of the hashes \<open>hashes ctx tx simulate\<close>
  (none in the modes that do not notify), and then the rest of the chain runs on the
  unchanged context. A listener is a Go \<^verbatim>\<open>func(common.Hash)\<close>: it has no result, so all it
  can do is change the world.

  \<open>appPendingTxListener\<close> is the listener that \<^verbatim>\<open>setAnteHandler\<close> registers: it calls
  every pending-tx listener of the app, in order, with the hash.

  The admission outcome of a run is the returned context and error, without the world.
\<close>

definition notifyPendingTx ::
  "('c \<Rightarrow> 'b Tx \<Rightarrow> bool \<Rightarrow> 'h list) \<Rightarrow> ('h \<Rightarrow> 'w \<Rightarrow> 'w) option \<Rightarrow> ('c, 'b, 'w) AnteHandle" where
  "notifyPendingTx hashes listener ctx tx simulate next w =
     (case listener of
        None \<Rightarrow> next ctx tx simulate w
      | Some f \<Rightarrow> next ctx tx simulate (fold f (hashes ctx tx simulate) w))"



section \<open>app: chain identity and EVM coin info\<close>

definition DefaultChainID :: string where
  "DefaultChainID = ''kudora_12000-1''"

definition BaseDenom :: string where
  "BaseDenom = ''kud''"

definition DisplayDenom :: string where
  "DisplayDenom = ''kudos''"

definition EighteenDecimals :: nat where
  "EighteenDecimals = 18"

record EvmCoinInfo =
  coin_Denom :: string
  coin_ExtendedDenom :: string
  coin_DisplayDenom :: string
  coin_Decimals :: nat

definition ChainsCoinInfo :: "string \<rightharpoonup> EvmCoinInfo" where
  "ChainsCoinInfo =
     map_of
       [(DefaultChainID,
           \<lparr> coin_Denom = BaseDenom, coin_ExtendedDenom = BaseDenom,
             coin_DisplayDenom = DisplayDenom, coin_Decimals = EighteenDecimals \<rparr>),
        (''kudora_12000'',
           \<lparr> coin_Denom = BaseDenom, coin_ExtendedDenom = BaseDenom,
             coin_DisplayDenom = DisplayDenom, coin_Decimals = EighteenDecimals \<rparr>),
        (''kudora_9000-1'',
           \<lparr> coin_Denom = BaseDenom, coin_ExtendedDenom = BaseDenom,
             coin_DisplayDenom = DisplayDenom, coin_Decimals = EighteenDecimals \<rparr>)]"

text \<open>
  \<^verbatim>\<open>strings.Split(s, sep)\<close> for a separator of one character: the pieces of \<open>s\<close> between
  the occurrences of \<open>sep\<close>. The result is never empty, so its element 0 exists
  (\<open>Split_not_Nil\<close> below), and that element is the text before the first separator
  (\<open>hd_Split\<close>).
\<close>

fun Split :: "string \<Rightarrow> char \<Rightarrow> string list" where
  "Split [] sep = [[]]"
| "Split (c # cs) sep =
     (if c = sep then [] # Split cs sep
      else (case Split cs sep of [] \<Rightarrow> [[c]] | p # ps \<Rightarrow> (c # p) # ps))"

text \<open>
  What \<^verbatim>\<open>initEVM\<close> calls outside the repository is the environment \<open>env\<close>:
  \<^verbatim>\<open>sdk.RegisterDenom\<close> and the configurator's \<^verbatim>\<open>Configure\<close> change process-wide state
  \<open>'g\<close> and may fail; \<^verbatim>\<open>strings.TrimSpace\<close> and \<^verbatim>\<open>strconv.ParseUint(s, 10, 64)\<close> are pure.
  Decimal values and the chain configuration are kept as the calls that build them.
\<close>

datatype LegacyDec = LegacyOneDec | LegacyNewDecWithPrec int int

datatype ChainConfig = DefaultChainConfig "64 word"

record EVMConfigurator =
  chainConfig :: "ChainConfig option"
  evmCoinInfo :: "EvmCoinInfo option"

definition NewEVMConfigurator :: EVMConfigurator where
  "NewEVMConfigurator = \<lparr> chainConfig = None, evmCoinInfo = None \<rparr>"

definition WithChainConfig :: "EVMConfigurator \<Rightarrow> ChainConfig \<Rightarrow> EVMConfigurator" where
  "WithChainConfig cfg ethCfg = cfg\<lparr>chainConfig := Some ethCfg\<rparr>"

definition WithEVMCoinInfo :: "EVMConfigurator \<Rightarrow> EvmCoinInfo \<Rightarrow> EVMConfigurator" where
  "WithEVMCoinInfo cfg coinInfo = cfg\<lparr>evmCoinInfo := Some coinInfo\<rparr>"

record 'g Env =
  RegisterDenom :: "string \<Rightarrow> LegacyDec \<Rightarrow> 'g \<Rightarrow> error option \<times> 'g"
  Configure :: "EVMConfigurator \<Rightarrow> 'g \<Rightarrow> error option \<times> 'g"
  TrimSpace :: "string \<Rightarrow> string"
  ParseUint :: "string \<Rightarrow> error + 64 word"

definition setBaseDenom :: "'g Env \<Rightarrow> EvmCoinInfo \<Rightarrow> 'g \<Rightarrow> error option \<times> 'g" where
  "setBaseDenom env ci g =
     (case RegisterDenom env (coin_DisplayDenom ci) LegacyOneDec g of
        (Some err, g') \<Rightarrow>
          (Some (Errorf ''failed to register display denom %s: %w'' [coin_DisplayDenom ci] (Some err)), g')
      | (None, g') \<Rightarrow>
          (let baseDenomPrecision = LegacyNewDecWithPrec 1 (int (coin_Decimals ci))
           in case RegisterDenom env (coin_Denom ci) baseDenomPrecision g' of
                (Some err, g'') \<Rightarrow>
                  (Some (Errorf ''failed to register base denom %s: %w'' [coin_Denom ci] (Some err)), g'')
              | (None, g'') \<Rightarrow> (None, g'')))"

definition parseEVMChainID :: "'g Env \<Rightarrow> string \<Rightarrow> error + 64 word" where
  "parseEVMChainID env chainID0 =
     (let chainID = TrimSpace env chainID0 in
      if chainID = [] then Inl (Errorf ''empty chain id'' [] None)
      else
        (case ParseUint env chainID of
           Inr n \<Rightarrow> Inr n
         | Inl _ \<Rightarrow>
             (let parts = Split chainID CHR ''_'' in
              if length parts < 2 then
                Inl (Errorf ''cannot extract evm chain id from %q'' [chainID] None)
              else
                (let last = parts ! (length parts - 1);
                     evmPart = hd (Split last CHR ''-'')
                 in case ParseUint env evmPart of
                      Inl err \<Rightarrow>
                        Inl (Errorf ''invalid evm chain id %q in %q: %w'' [evmPart, chainID] (Some err))
                    | Inr n \<Rightarrow> Inr n))))"

definition initEVM :: "'g Env \<Rightarrow> string \<Rightarrow> 'g \<Rightarrow> error option \<times> 'g" where
  "initEVM env chainID0 g =
     (let chainID = (if chainID0 = [] then DefaultChainID else chainID0);
          baseID = hd (Split chainID CHR ''-'');
          configure = (\<lambda>coinInfo.
            case setBaseDenom env coinInfo g of
              (Some err, g') \<Rightarrow> (Some (Errorf ''failed to set base denom: %w'' [] (Some err)), g')
            | (None, g') \<Rightarrow>
                (case parseEVMChainID env chainID of
                   Inl err \<Rightarrow>
                     (Some (Errorf ''failed to parse evm chain id from %q: %w'' [chainID] (Some err)), g')
                 | Inr evmChainID \<Rightarrow>
                     (let ethCfg = DefaultChainConfig evmChainID;
                          cfg = WithEVMCoinInfo (WithChainConfig NewEVMConfigurator ethCfg) coinInfo
                      in case Configure env cfg g' of
                           (Some err, g'') \<Rightarrow>
                             (Some (Errorf ''failed to configure EVM: %w'' [] (Some err)), g'')
                         | (None, g'') \<Rightarrow> (None, g''))))
      in case ChainsCoinInfo baseID of
           Some coinInfo \<Rightarrow> configure coinInfo
         | None \<Rightarrow>
             (case ChainsCoinInfo chainID of
                Some coinInfo \<Rightarrow> configure coinInfo
              | None \<Rightarrow>
                  (Some (Errorf ''unknown chain id: %s (not found in ChainsCoinInfo)'' [chainID] None), g)))"

text \<open>
  The chain ID that is looked up, what it means for it to be known (its text before the
  first \<^verbatim>\<open>-\<close>, or all of it, is a key of \<open>ChainsCoinInfo\<close>), and the unknown-chain-id error.
\<close>

definition effectiveChainID :: "string \<Rightarrow> string" where
  "effectiveChainID chainID = (if chainID = [] then DefaultChainID else chainID)"

definition knownChain :: "string \<Rightarrow> bool" where
  "knownChain chainID \<longleftrightarrow>
     takeWhile (\<lambda>c. c \<noteq> CHR ''-'') chainID \<in> dom ChainsCoinInfo \<or> chainID \<in> dom ChainsCoinInfo"

fun unknownChainIdError :: "error option \<Rightarrow> bool" where
  "unknownChainIdError (Some (Errorf fmt args cause)) \<longleftrightarrow>
     fmt = ''unknown chain id: %s (not found in ChainsCoinInfo)'' \<and> cause = None"
| "unknownChainIdError _ \<longleftrightarrow> False"

section \<open>app: EVMAppOptions and its sync.Once\<close>

text \<open>
  \<^verbatim>\<open>EVMAppOptions(chainID)\<close> is
  \<^verbatim>\<open>evmInitOnce.Do(func() { evmInitErr = initEVM(chainID) }); return evmInitErr\<close>, and
  \<^verbatim>\<open>Once.Do(f)\<close> is
  \<^verbatim>\<open>if o.done.Load() == 0 { o.m.Lock(); defer o.m.Unlock(); if o.done.Load() == 0 { defer o.done.Store(1); f() } }\<close>.
  Calls may run concurrently, so a call is a sequence of atomic steps, one per access
  to the shared state, and an execution is an interleaving of the steps of the calls.
  The program counter of a call says which step is next:
  \<^item> \<open>DoLoadDone\<close>: the first load of \<open>done\<close>;
  \<^item> \<open>SlowLock\<close>: \<^verbatim>\<open>o.m.Lock()\<close>, which waits while another call holds the mutex;
  \<^item> \<open>SlowLoadDone\<close>: the second load of \<open>done\<close>, and with \<open>done = 0\<close> the call of
    \<^verbatim>\<open>initEVM\<close> and the assignment to \<open>evmInitErr\<close> (no other call touches what they
    touch while the mutex is held);
  \<^item> \<open>SlowStoreDone\<close>: the deferred \<^verbatim>\<open>o.done.Store(1)\<close>;
  \<^item> \<open>SlowUnlock\<close>: the deferred \<^verbatim>\<open>o.m.Unlock()\<close>;
  \<^item> \<open>ReturnErr\<close>: \<^verbatim>\<open>return evmInitErr\<close>;
  \<^item> \<open>Returned r\<close>: the call has returned \<open>r\<close>.

  The state holds the fields of \<open>evmInitOnce\<close> (\<open>onceDone\<close>, and in \<open>onceMutex\<close> the call
  that holds the mutex), \<open>evmInitErr\<close>, the process-wide state \<open>globals\<close> that \<^verbatim>\<open>initEVM\<close>
  changes, the program counter of every call, and the history \<open>initRuns\<close>: the chain IDs
  \<^verbatim>\<open>initEVM\<close> has been executed with. Call \<open>i\<close> is \<^verbatim>\<open>EVMAppOptions(chainIDs[i])\<close>; a step of
  a call that is waiting or has returned changes nothing.
\<close>

datatype pc =
    DoLoadDone
  | SlowLock
  | SlowLoadDone
  | SlowStoreDone
  | SlowUnlock
  | ReturnErr
  | Returned "error option"

record 'g EvmState =
  onceDone :: bool
  onceMutex :: "nat option"
  evmInitErr :: "error option"
  globals :: 'g
  initRuns :: "string list"
  pcOf :: "nat \<Rightarrow> pc"

definition initialState :: "'g \<Rightarrow> 'g EvmState" where
  "initialState g =
     \<lparr> onceDone = False, onceMutex = None, evmInitErr = None, globals = g,
       initRuns = [], pcOf = (\<lambda>i. DoLoadDone) \<rparr>"

definition stepCall :: "'g Env \<Rightarrow> string list \<Rightarrow> nat \<Rightarrow> 'g EvmState \<Rightarrow> 'g EvmState" where
  "stepCall env chainIDs i s =
     (if i < length chainIDs then
        (case pcOf s i of
           DoLoadDone \<Rightarrow>
             if onceDone s then s\<lparr>pcOf := (pcOf s)(i := ReturnErr)\<rparr>
             else s\<lparr>pcOf := (pcOf s)(i := SlowLock)\<rparr>
         | SlowLock \<Rightarrow>
             if onceMutex s = None
             then s\<lparr>onceMutex := Some i, pcOf := (pcOf s)(i := SlowLoadDone)\<rparr>
             else s
         | SlowLoadDone \<Rightarrow>
             if onceDone s then s\<lparr>pcOf := (pcOf s)(i := SlowUnlock)\<rparr>
             else
               (case initEVM env (chainIDs ! i) (globals s) of
                  (err, g') \<Rightarrow>
                    s\<lparr>evmInitErr := err, globals := g',
                      initRuns := initRuns s @ [chainIDs ! i],
                      pcOf := (pcOf s)(i := SlowStoreDone)\<rparr>)
         | SlowStoreDone \<Rightarrow> s\<lparr>onceDone := True, pcOf := (pcOf s)(i := SlowUnlock)\<rparr>
         | SlowUnlock \<Rightarrow> s\<lparr>onceMutex := None, pcOf := (pcOf s)(i := ReturnErr)\<rparr>
         | ReturnErr \<Rightarrow> s\<lparr>pcOf := (pcOf s)(i := Returned (evmInitErr s))\<rparr>
         | Returned r \<Rightarrow> s)
      else s)"

definition exec :: "'g Env \<Rightarrow> string list \<Rightarrow> nat list \<Rightarrow> 'g EvmState \<Rightarrow> 'g EvmState" where
  "exec env chainIDs schedule s = fold (stepCall env chainIDs) schedule s"

text \<open>
  The steps a call still has to take, and the invariant of the executions: the mutex is
  held by exactly the call that is between \<^verbatim>\<open>Lock\<close> and \<^verbatim>\<open>Unlock\<close>; once \<open>done\<close> is set, or
  while a call is about to set it, \<^verbatim>\<open>initEVM\<close> has run exactly once, for the chain ID of
  one of the calls, from the initial process-wide state, and \<open>evmInitErr\<close> holds its
  result; before that it has not run; a call past the \<open>Do\<close> has seen \<open>done\<close> set, and a call
  that has returned has returned \<open>evmInitErr\<close>.
\<close>

fun remaining :: "pc \<Rightarrow> nat" where
  "remaining DoLoadDone = 6"
| "remaining SlowLock = 5"
| "remaining SlowLoadDone = 4"
| "remaining SlowStoreDone = 3"
| "remaining SlowUnlock = 2"
| "remaining ReturnErr = 1"
| "remaining (Returned r) = 0"

definition remainingSteps :: "string list \<Rightarrow> 'g EvmState \<Rightarrow> nat" where
  "remainingSteps chainIDs s = (\<Sum>i < length chainIDs. remaining (pcOf s i))"

definition initialized :: "'g Env \<Rightarrow> string list \<Rightarrow> 'g \<Rightarrow> 'g EvmState \<Rightarrow> bool" where
  "initialized env chainIDs g s \<longleftrightarrow>
     (\<exists>c \<in> set chainIDs. initRuns s = [c] \<and> evmInitErr s = fst (initEVM env c g) \<and>
        globals s = snd (initEVM env c g))"

definition inCritical :: "pc \<Rightarrow> bool" where
  "inCritical p \<longleftrightarrow> p = SlowLoadDone \<or> p = SlowStoreDone \<or> p = SlowUnlock"

definition onceInv :: "'g Env \<Rightarrow> string list \<Rightarrow> 'g \<Rightarrow> 'g EvmState \<Rightarrow> bool" where
  "onceInv env chainIDs g s \<longleftrightarrow>
     (\<forall>i < length chainIDs. inCritical (pcOf s i) \<longleftrightarrow> onceMutex s = Some i) \<and>
     (\<forall>j. onceMutex s = Some j \<longrightarrow> j < length chainIDs) \<and>
     (onceDone s \<longrightarrow> initialized env chainIDs g s) \<and>
     (\<forall>i < length chainIDs. pcOf s i = SlowStoreDone \<longrightarrow>
        \<not> onceDone s \<and> initialized env chainIDs g s) \<and>
     (\<not> onceDone s \<and> (\<forall>i < length chainIDs. pcOf s i \<noteq> SlowStoreDone) \<longrightarrow>
        initRuns s = [] \<and> globals s = g) \<and>
     (\<forall>i < length chainIDs. pcOf s i = SlowUnlock \<longrightarrow> onceDone s) \<and>
     (\<forall>i < length chainIDs. pcOf s i = ReturnErr \<longrightarrow> onceDone s) \<and>
     (\<forall>i < length chainIDs. \<forall>r. pcOf s i = Returned r \<longrightarrow> onceDone s \<and> r = evmInitErr s)"

section \<open>A concrete instance\<close>

text \<open>
  A small instance on which the definitions are evaluated. The context is the gas
  consumed so far, the body of a transaction says whether its signature and funds are
  good, and the world holds one signer's sequence number and the hashes delivered to
  observers. The size-based gas step charges 10 gas, signature verification aborts on a
  bad transaction, the sequence increment advances the sequence number, and the EVM
  mono decorator charges 21 gas or aborts on a bad transaction; every other step
  passes. The options leave the fee-grant keeper, the pending-tx listener and the
  simulation gas limit of the node config nil.
\<close>

record demoWorld =
  sequence :: nat
  notified :: "nat list"

definition demoOptions :: "(nat, nat \<Rightarrow> demoWorld \<Rightarrow> demoWorld) HandlerOptions" where
  "demoOptions =
     \<lparr> AccountKeeper = Some 1, BankKeeper = Some 2, FeegrantKeeper = None,
       SignModeHandler = Some 4, SignatureGasConsumer = Some 5, TxFeeChecker = Some 6,
       ExtensionOptionChecker = Some 7, Cdc = Some 8, EvmKeeper = Some 9,
       FeeMarketKeeper = 10, MaxTxGasWanted = 0, PendingTxListener = None,
       IBCKeeper = Some 13, NodeConfig = Some \<lparr> SimulationGasLimit = None \<rparr>,
       WasmKeeper = Some 15, TXCounterStoreService = Some 16, CircuitKeeper = Some 17 \<rparr>"

definition demoStep :: "(nat, nat \<Rightarrow> demoWorld \<Rightarrow> demoWorld) AnteDecorator \<Rightarrow> (nat, bool, demoWorld) step" where
  "demoStep d ctx tx simulate w =
     (case stepOf d of
        SizeBasedGasConsumption \<Rightarrow> (Pass (ctx + 10), w)
      | SignatureVerification \<Rightarrow>
          (if txBody tx then (Pass ctx, w)
           else (Abort ctx (ErrorsNew ''signature verification failed''), w))
      | SequenceIncrement \<Rightarrow> (Pass ctx, w\<lparr>sequence := sequence w + 1\<rparr>)
      | EVMMono \<Rightarrow>
          (if txBody tx then (Pass (ctx + 21), w)
           else (Abort ctx (ErrorsNew ''insufficient funds for intrinsic gas''), w))
      | _ \<Rightarrow> (Pass ctx, w))"

definition demoAnteHandle ::
  "(nat, nat \<Rightarrow> demoWorld \<Rightarrow> demoWorld) AnteDecorator \<Rightarrow> (nat, bool, demoWorld) AnteHandle" where
  "demoAnteHandle d =
     (case d of
        NewTxListenerDecorator listener \<Rightarrow> notifyPendingTx (\<lambda>ctx tx simulate. [42]) listener
      | _ \<Rightarrow> passOrAbort (demoStep d))"


definition demoTx :: "bool \<Rightarrow> string list option \<Rightarrow> bool Tx" where
  "demoTx ok urls =
     \<lparr> txBody = ok,
       asHasExtensionOptionsTx =
         map_option (map (\<lambda>u. Some \<lparr> TypeUrl = u, Value = [] \<rparr>)) urls \<rparr>"

definition demoWorld0 :: demoWorld where
  "demoWorld0 = \<lparr> sequence = 5, notified = [] \<rparr>"

definition demoCosmosChain :: "(nat, nat \<Rightarrow> demoWorld \<Rightarrow> demoWorld) AnteDecorator list" where
  "demoCosmosChain =
         [NewRejectMessagesDecorator,
          NewAuthzLimiterDecorator [MsgTypeURL MsgEthereumTx, MsgTypeURL MsgCreateVestingAccount],
          NewSetUpContextDecorator,
          LimitSimulationGasDecorator None,
          NewCountTXDecorator (Some 16),
          NewGasRegisterDecorator (GetGasRegister 15),
          NewTxContractsDecorator,
          NewCircuitBreakerDecorator (Some 17),
          NewExtensionOptionsDecorator (Some 7),
          NewValidateBasicDecorator,
          NewTxTimeoutHeightDecorator,
          NewValidateMemoDecorator (Some 1),
          NewMinGasPriceDecorator 10 (Some 9),
          NewConsumeGasForTxSizeDecorator (Some 1),
          NewDeductFeeDecorator (Some 1) (Some 2) None (Some 6),
          NewSetPubKeyDecorator (Some 1),
          NewValidateSigCountDecorator (Some 1),
          NewSigGasConsumeDecorator (Some 1) (Some 5),
          NewSigVerificationDecorator (Some 1) (Some 4),
          NewIncrementSequenceDecorator (Some 1),
          NewRedundantRelayDecorator (Some 13),
          NewGasWantedDecorator (Some 9) 10]"

text \<open>
  An environment for \<^verbatim>\<open>initEVM\<close> whose process-wide state is the log of what was registered
  and configured, and two concurrent calls of \<^verbatim>\<open>EVMAppOptions\<close> with one interleaving of
  their steps.
\<close>

definition demoEnv :: "string list Env" where
  "demoEnv =
     \<lparr> RegisterDenom = (\<lambda>denom dec g. (None, g @ [''denom '' @ denom])),
       Configure = (\<lambda>cfg g. (None, g @ [''configured''])),
       TrimSpace = (\<lambda>s. s),
       ParseUint = (\<lambda>s. if s = ''12000'' then Inr 12000 else Inl (ErrorsNew ''invalid syntax'')) \<rparr>"

definition demoChainIDs :: "string list" where
  "demoChainIDs = [''kudora_12000-1'', ''osmosis-1'']"

definition demoSchedule :: "nat list" where
  "demoSchedule = [0, 1, 1, 0, 1, 1, 1, 1, 0, 0, 0, 0]"

definition unknownOsmosis :: "error option" where
  "unknownOsmosis =
     Some (Errorf ''unknown chain id: %s (not found in ChainsCoinInfo)'' [''osmosis-1''] None)"

section \<open>Construction of the handler\<close>

lemma cosmosDecorators_Ret:
  "NodeConfig options = Some nodeConfig \<Longrightarrow> SimulationGasLimit nodeConfig \<noteq> Some 0 \<Longrightarrow>
   WasmKeeper options \<noteq> None \<Longrightarrow>
     \<exists>ds. cosmosDecorators options = Ret ds \<and> ds \<noteq> []"
  by (auto simp: cosmosDecorators_def wasmDecorators_def NewLimitSimulationGasDecorator_def)

lemma cosmosDecorators_Panic:
  "cosmosDecorators options = Panic \<longleftrightarrow>
     NodeConfig options = None \<or>
     (\<exists>nodeConfig. NodeConfig options = Some nodeConfig \<and> SimulationGasLimit nodeConfig = Some 0) \<or>
     WasmKeeper options = None"
  by (auto simp: cosmosDecorators_def wasmDecorators_def NewLimitSimulationGasDecorator_def
      split: option.splits)

lemma cosmosDecorators_not_Nil: "cosmosDecorators options = Ret ds \<Longrightarrow> ds \<noteq> []"
  by (auto simp: cosmosDecorators_def wasmDecorators_def split: option.splits go.splits)


lemma NewAnteHandler_Some:
  assumes "NewAnteHandler ah options = Ret (Some h, None)"
  shows "\<exists>ds. cosmosDecorators options = Ret ds \<and> ds \<noteq> [] \<and>
           NewCosmosAnteHandler ah options = Ret (Some (chainFrom ah ds)) \<and>
           NewMonoEVMAnteHandler ah options = Some (chainFrom ah (evmDecorators options)) \<and>
           h = anteHandlerFunc (Some (chainFrom ah ds)) (Some (chainFrom ah (evmDecorators options)))"
proof -
  from assms obtain c where c: "NewCosmosAnteHandler ah options = Ret c"
    and h: "h = anteHandlerFunc c (NewMonoEVMAnteHandler ah options)"
    by (auto simp: NewAnteHandler_def split: if_splits go.splits)
  from c obtain ds where ds: "cosmosDecorators options = Ret ds"
    and cd: "c = ChainAnteDecorators ah ds"
    by (auto simp: NewCosmosAnteHandler_def split: go.splits)
  from cosmosDecorators_not_Nil[OF ds] have ne: "ds \<noteq> []" .
  have evm: "NewMonoEVMAnteHandler ah options = Some (chainFrom ah (evmDecorators options))"
    by (simp add: NewMonoEVMAnteHandler_def ChainAnteDecorators_def evmDecorators_def)
  have cos: "NewCosmosAnteHandler ah options = Ret (Some (chainFrom ah ds))"
    using c cd ne by (simp add: ChainAnteDecorators_def)
  have "h = anteHandlerFunc (Some (chainFrom ah ds)) (Some (chainFrom ah (evmDecorators options)))"
    using h cd ne evm by (simp add: ChainAnteDecorators_def)
  with ds ne cos evm show ?thesis by blast
qed

lemma process_handler:
  "NewAnteHandler ah options = Ret (Some h, None) \<Longrightarrow> process ah options = h"
  by (rule ext)+ (simp add: process_def call_def)

lemma NewAnteHandler_missing:
  "requiredOptionMissing options \<Longrightarrow>
     \<exists>name. name \<in> set requiredOptionNames \<and> NewAnteHandler ah options =
       Ret (None, Some (ErrorsNew (name @ '' is required for ante builder'')))"
  unfolding requiredOptionMissing_def NewAnteHandler_def requiredOptionNames_def
  apply simp
  apply (elim disjE; simp)
  done


lemma NewAnteHandler_Panic:
  assumes "\<not> requiredOptionMissing options" and "cosmosDecorators options = Panic"
  shows "NewAnteHandler ah options = Panic"
  using assms
  by (simp add: requiredOptionMissing_def NewAnteHandler_def NewCosmosAnteHandler_def)



section \<open>Dispatch on the leading extension option\<close>

lemma firstTypeUrl_None:
  "firstTypeUrl tx = None \<longleftrightarrow>
     asHasExtensionOptionsTx tx = None \<or> asHasExtensionOptionsTx tx = Some []"
  by (auto simp: firstTypeUrl_def extensionOptionsOf_def split: option.splits list.splits)

lemma anteHandlerFunc_none:
  "firstTypeUrl tx = None \<Longrightarrow>
     anteHandlerFunc c e ctx tx simulate w = call c ctx tx simulate w"
  by (auto simp: anteHandlerFunc_def firstTypeUrl_def extensionOptionsOf_def
      split: option.splits list.splits)

lemma anteHandlerFunc_first:
  "firstTypeUrl tx = Some url \<Longrightarrow>
     anteHandlerFunc c e ctx tx simulate w =
       (if url = ethereumTxUrl then call e ctx tx simulate w
        else if url = dynamicFeeTxUrl then call c ctx tx simulate w
        else Ret ((ctx, Some (unknownExtension url)), w))"
  by (auto simp: anteHandlerFunc_def firstTypeUrl_def extensionOptionsOf_def Let_def
      ethereumTxUrl_def dynamicFeeTxUrl_def unknownExtension_def
      split: option.splits list.splits)

lemma handler_selected:
  assumes "NewAnteHandler ah options = Ret (Some h, None)"
    and "cosmosDecorators options = Ret cs"
  shows "case selectedChain cs (evmDecorators options) tx of
           None \<Rightarrow> (\<exists>url. firstTypeUrl tx = Some url \<and>
                      h ctx tx simulate w = Ret ((ctx, Some (unknownExtension url)), w))
         | Some ds \<Rightarrow> h ctx tx simulate w = chainFrom ah ds ctx tx simulate w"
proof -
  from NewAnteHandler_Some[OF assms(1)] assms(2)
  have h: "h = anteHandlerFunc (Some (chainFrom ah cs)) (Some (chainFrom ah (evmDecorators options)))"
    by auto
  show ?thesis
  proof (cases "firstTypeUrl tx")
    case None
    then show ?thesis
      by (simp add: selectedChain_def h anteHandlerFunc_none call_def)
  next
    case (Some url)
    then show ?thesis
      by (simp add: selectedChain_def h anteHandlerFunc_first call_def)
  qed
qed

section \<open>Chains of decorators that obey the contract\<close>

lemma obeys_Cons: "obeys ah st (d # ds) \<longleftrightarrow> ah d = passOrAbort (st d) \<and> obeys ah st ds"
  by (simp add: obeys_def)

lemma obeys_append: "obeys ah st (xs @ ys) \<longleftrightarrow> obeys ah st xs \<and> obeys ah st ys"
  by (auto simp: obeys_def)

lemma chainFrom_append:
  "obeys ah st xs \<Longrightarrow>
     chainFrom ah (xs @ ys) ctx tx simulate w =
       (case runSteps st xs ctx tx simulate w of
          ((ctx', None), w') \<Rightarrow> chainFrom ah ys ctx' tx simulate w'
        | ((ctx', Some e), w') \<Rightarrow> Ret ((ctx', Some e), w'))"
proof (induction xs arbitrary: ctx w)
  case Nil
  then show ?case by simp
next
  case (Cons d xs)
  then have d: "ah d = passOrAbort (st d)" and xs: "obeys ah st xs"
    by (simp_all add: obeys_Cons)
  show ?case
  proof (cases "st d ctx tx simulate w")
    case (Pair v w1)
    then show ?thesis
      by (cases v) (simp_all add: d passOrAbort_def Cons.IH[OF xs])
  qed
qed

lemma chainFrom_runSteps:
  "obeys ah st ds \<Longrightarrow> chainFrom ah ds ctx tx simulate w = Ret (runSteps st ds ctx tx simulate w)"
  using chainFrom_append[of ah st ds "[]" ctx tx simulate w]
  by (auto split: prod.splits option.splits)

lemma runSteps_append:
  "runSteps st (xs @ ys) ctx tx simulate w =
     (case runSteps st xs ctx tx simulate w of
        ((ctx', None), w') \<Rightarrow> runSteps st ys ctx' tx simulate w'
      | ((ctx', Some e), w') \<Rightarrow> ((ctx', Some e), w'))"
proof (induction xs arbitrary: ctx w)
  case Nil
  then show ?case by simp
next
  case (Cons d xs)
  show ?case
  proof (cases "st d ctx tx simulate w")
    case (Pair v w1)
    then show ?thesis by (cases v) (simp_all add: Cons.IH)
  qed
qed

lemma runSteps_preserves:
  "preservesSeq seq st tx simulate ds \<Longrightarrow> seq (snd (runSteps st ds ctx tx simulate w)) = seq w"
proof (induction ds arbitrary: ctx w)
  case Nil
  then show ?case by simp
next
  case (Cons d ds)
  then have d: "\<And>ctx w. seq (snd (st d ctx tx simulate w)) = seq w"
    and ds: "preservesSeq seq st tx simulate ds"
    by (simp_all add: preservesSeq_def)
  show ?case
  proof (cases "st d ctx tx simulate w")
    case (Pair v w1)
    with d[of ctx w] have "seq w1 = seq w" by simp
    with Pair show ?thesis by (cases v) (simp_all add: Cons.IH[OF ds])
  qed
qed

lemma runSteps_rejected:
  assumes "d \<in> set ds" and "\<And>ctx w. aborted (fst (st d ctx tx simulate w))"
  shows "snd (fst (runSteps st ds ctx tx simulate w)) \<noteq> None"
  using assms(1)
proof (induction ds arbitrary: ctx w)
  case Nil
  then show ?case by simp
next
  case (Cons x xs)
  show ?case
  proof (cases "st x ctx tx simulate w")
    case (Pair v w1)
    show ?thesis
    proof (cases v)
      case (Abort c e)
      with Pair show ?thesis by simp
    next
      case (Pass c)
      with Pair assms(2)[of ctx w] have "x \<noteq> d" by auto
      with Cons.prems have "d \<in> set xs" by simp
      from Cons.IH[OF this] Pair Pass show ?thesis by simp
    qed
  qed
qed

lemma runSteps_abort_split:
  "runSteps st ds ctx tx simulate w = ((ctx', Some e), w') \<Longrightarrow>
     \<exists>pre d post c1 w1. ds = pre @ d # post \<and>
        runSteps st pre ctx tx simulate w = ((c1, None), w1) \<and>
        st d c1 tx simulate w1 = (Abort ctx' e, w')"
proof (induction ds arbitrary: ctx w)
  case Nil
  then show ?case by simp
next
  case (Cons x xs)
  show ?case
  proof (cases "st x ctx tx simulate w")
    case (Pair v w1)
    show ?thesis
    proof (cases v)
      case (Abort c err)
      with Pair Cons.prems have "st x ctx tx simulate w = (Abort ctx' e, w')" by simp
      then have "x # xs = [] @ x # xs \<and> runSteps st [] ctx tx simulate w = ((ctx, None), w) \<and>
                 st x ctx tx simulate w = (Abort ctx' e, w')" by simp
      then show ?thesis by blast
    next
      case (Pass c)
      with Pair Cons.prems have "runSteps st xs c tx simulate w1 = ((ctx', Some e), w')" by simp
      from Cons.IH[OF this] obtain pre d post c1 w2 where
        s: "xs = pre @ d # post" "runSteps st pre c tx simulate w1 = ((c1, None), w2)"
           "st d c1 tx simulate w2 = (Abort ctx' e, w')" by blast
      then have "x # xs = (x # pre) @ d # post \<and>
                 runSteps st (x # pre) ctx tx simulate w = ((c1, None), w2) \<and>
                 st d c1 tx simulate w2 = (Abort ctx' e, w')"
        using Pair Pass by simp
      then show ?thesis by blast
    qed
  qed
qed

lemma runSteps_pass_all:
  assumes "runSteps st ds ctx tx simulate w = ((ctx', None), w')" and "ds = pre @ d # post"
  shows "\<exists>c1 w1 c2 w2. runSteps st pre ctx tx simulate w = ((c1, None), w1) \<and>
           st d c1 tx simulate w1 = (Pass c2, w2)"
proof -
  obtain c1 e1 w1 where r: "runSteps st pre ctx tx simulate w = ((c1, e1), w1)"
    by (metis surj_pair)
  have e1: "e1 = None"
    using assms r by (cases e1) (simp_all add: runSteps_append)
  obtain v w2 where s: "st d c1 tx simulate w1 = (v, w2)" by (metis surj_pair)
  have "runSteps st (d # post) c1 tx simulate w1 = ((ctx', None), w')"
    using assms r e1 by (simp add: runSteps_append)
  with s obtain c2 where "v = Pass c2" by (cases v) simp_all
  with r e1 s show ?thesis by blast
qed

lemma cosmos_split:
  assumes "cosmosDecorators options = Ret ds"
  shows "\<exists>front rear.
           ds = front @ NewIncrementSequenceDecorator (AccountKeeper options) # rear \<and>
           beforeIncrement ds = front \<and> exceptIncrement ds = front @ rear \<and>
           NewSigVerificationDecorator (AccountKeeper options) (SignModeHandler options) \<in> set front"
  using assms
  by (auto simp: cosmosDecorators_def wasmDecorators_def NewLimitSimulationGasDecorator_def
      beforeIncrement_def exceptIncrement_def split: option.splits go.splits if_splits)



section \<open>The inline constructor builds the same handler\<close>

lemma toAnteOptions_sel:
  "AccountKeeper (toAnteOptions options) = app_AccountKeeper options"
  "BankKeeper (toAnteOptions options) = auth_BankKeeper (app_HandlerOptions options)"
  "FeegrantKeeper (toAnteOptions options) = auth_FeegrantKeeper (app_HandlerOptions options)"
  "SignModeHandler (toAnteOptions options) = auth_SignModeHandler (app_HandlerOptions options)"
  "SignatureGasConsumer (toAnteOptions options) = auth_SigGasConsumer (app_HandlerOptions options)"
  "TxFeeChecker (toAnteOptions options) = app_TxFeeChecker options"
  "ExtensionOptionChecker (toAnteOptions options) = app_ExtensionOptionChecker options"
  "Cdc (toAnteOptions options) = app_Cdc options"
  "EvmKeeper (toAnteOptions options) = app_EvmKeeper options"
  "FeeMarketKeeper (toAnteOptions options) = app_FeeMarketKeeper options"
  "MaxTxGasWanted (toAnteOptions options) = app_MaxTxGasWanted options"
  "PendingTxListener (toAnteOptions options) = app_PendingTxListener options"
  "IBCKeeper (toAnteOptions options) = app_IBCKeeper options"
  "NodeConfig (toAnteOptions options) = app_NodeConfig options"
  "WasmKeeper (toAnteOptions options) = app_WasmKeeper options"
  "TXCounterStoreService (toAnteOptions options) = app_TXCounterStoreService options"
  "CircuitKeeper (toAnteOptions options) = app_CircuitKeeper options"
  by (simp_all add: toAnteOptions_def)

lemma inlineCosmosDecorators_eq:
  "inlineCosmosDecorators options = cosmosDecorators (toAnteOptions options)"
  unfolding inlineCosmosDecorators_def cosmosDecorators_def wasmDecorators_def toAnteOptions_sel
  by (simp split: option.splits go.splits)

lemma inlineEvmDecorators_eq:
  "inlineEvmDecorators options = evmDecorators (toAnteOptions options)"
  unfolding inlineEvmDecorators_def evmDecorators_def toAnteOptions_sel
  by (rule refl)

lemma inline_tail:
  "(case inlineCosmosDecorators options of
           Panic \<Rightarrow> Panic
         | Ret cosmosDecorators' \<Rightarrow>
             (let cosmosAnteHandler = ChainAnteDecorators ah cosmosDecorators';
                  evmDecorators' = inlineEvmDecorators options;
                  evmAnteHandler = ChainAnteDecorators ah evmDecorators'
              in Ret (Some (anteHandlerFunc cosmosAnteHandler evmAnteHandler), None)))
   = (case NewCosmosAnteHandler ah (toAnteOptions options) of
           Panic \<Rightarrow> Panic
         | Ret cosmosAnteHandler \<Rightarrow>
             (let evmAnteHandler = NewMonoEVMAnteHandler ah (toAnteOptions options)
              in Ret (Some (anteHandlerFunc cosmosAnteHandler evmAnteHandler), None)))"
  by (simp add: inlineCosmosDecorators_eq inlineEvmDecorators_eq NewCosmosAnteHandler_def
      NewMonoEVMAnteHandler_def split: go.splits)

section \<open>Lookup of the chain ID\<close>

lemma Split_not_Nil: "Split s sep \<noteq> []"
  by (induction s) (auto split: list.splits)

lemma hd_Split: "hd (Split s sep) = takeWhile (\<lambda>c. c \<noteq> sep) s"
  by (induction s) (auto split: list.splits simp: Split_not_Nil)

lemma initEVM_known:
  assumes "knownChain (effectiveChainID chainID)"
  shows "\<not> unknownChainIdError (fst (initEVM env chainID g))"
proof (cases "ChainsCoinInfo (takeWhile (\<lambda>c. c \<noteq> CHR ''-'') (effectiveChainID chainID))")
  case (Some ci)
  then show ?thesis
    by (auto simp: initEVM_def effectiveChainID_def hd_Split Let_def
        split: prod.splits option.splits sum.splits)
next
  case None
  with assms obtain ci where "ChainsCoinInfo (effectiveChainID chainID) = Some ci"
    by (auto simp: knownChain_def dom_def)
  with None show ?thesis
    by (auto simp: initEVM_def effectiveChainID_def hd_Split Let_def
        split: prod.splits option.splits sum.splits)
qed

lemma initEVM_unknown:
  assumes "\<not> knownChain (effectiveChainID chainID)"
  shows "initEVM env chainID g =
           (Some (Errorf ''unknown chain id: %s (not found in ChainsCoinInfo)''
                    [effectiveChainID chainID] None), g)"
  using assms
  by (auto simp: initEVM_def effectiveChainID_def knownChain_def hd_Split Let_def dom_def)

section \<open>The invariant of once-only initialization\<close>

lemma onceInv_initial: "onceInv env chainIDs g (initialState g)"
  by (simp add: onceInv_def initialState_def inCritical_def)

lemma onceInvD:
  assumes "onceInv env chainIDs g s"
  shows "\<And>j. j < length chainIDs \<Longrightarrow> inCritical (pcOf s j) \<longleftrightarrow> onceMutex s = Some j"
    and "\<And>j. onceMutex s = Some j \<Longrightarrow> j < length chainIDs"
    and "onceDone s \<Longrightarrow> initialized env chainIDs g s"
    and "\<And>j. j < length chainIDs \<Longrightarrow> pcOf s j = SlowStoreDone \<Longrightarrow>
           \<not> onceDone s \<and> initialized env chainIDs g s"
    and "\<not> onceDone s \<Longrightarrow> \<forall>j < length chainIDs. pcOf s j \<noteq> SlowStoreDone \<Longrightarrow>
           initRuns s = [] \<and> globals s = g"
    and "\<And>j. j < length chainIDs \<Longrightarrow> pcOf s j = SlowUnlock \<Longrightarrow> onceDone s"
    and "\<And>j. j < length chainIDs \<Longrightarrow> pcOf s j = ReturnErr \<Longrightarrow> onceDone s"
    and "\<And>j r. j < length chainIDs \<Longrightarrow> pcOf s j = Returned r \<Longrightarrow>
           onceDone s \<and> r = evmInitErr s"
  using assms unfolding onceInv_def by blast+

lemma step_lock:
  assumes "onceInv env chainIDs g s"
  shows "\<forall>j < length chainIDs. inCritical (pcOf (stepCall env chainIDs i s) j)
           \<longleftrightarrow> onceMutex (stepCall env chainIDs i s) = Some j"
proof (cases "i < length chainIDs")
  case False
  with assms show ?thesis by (simp add: stepCall_def onceInv_def)
next
  case True
  from assms have a: "\<forall>j < length chainIDs. inCritical (pcOf s j) \<longleftrightarrow> onceMutex s = Some j"
    by (simp add: onceInv_def)
  with True have ai: "inCritical (pcOf s i) \<longleftrightarrow> onceMutex s = Some i" by blast
  show ?thesis
    using a ai True
    by (cases "pcOf s i") (auto simp: stepCall_def inCritical_def split: prod.splits)
qed

lemma step_range:
  assumes "onceInv env chainIDs g s"
  shows "\<forall>j. onceMutex (stepCall env chainIDs i s) = Some j \<longrightarrow> j < length chainIDs"
  using onceInvD(2)[OF assms]
  by (cases "pcOf s i") (auto simp: stepCall_def split: prod.splits)

lemma others_not_critical:
  assumes "onceInv env chainIDs g s" and "i < length chainIDs" and "inCritical (pcOf s i)"
    and "j < length chainIDs" and "j \<noteq> i"
  shows "\<not> inCritical (pcOf s j)"
  using onceInvD(1)[OF assms(1) assms(2)] onceInvD(1)[OF assms(1) assms(4)] assms(3,5) by simp

lemma step_fields:
  "i < length chainIDs \<Longrightarrow> pcOf s i \<noteq> SlowLoadDone \<or> onceDone s \<Longrightarrow>
     evmInitErr (stepCall env chainIDs i s) = evmInitErr s \<and>
     globals (stepCall env chainIDs i s) = globals s \<and>
     initRuns (stepCall env chainIDs i s) = initRuns s"
  by (cases "pcOf s i") (auto simp: stepCall_def)

lemma step_done:
  "onceDone s \<Longrightarrow> onceDone (stepCall env chainIDs i s)"
  by (cases "pcOf s i") (auto simp: stepCall_def split: prod.splits)

lemma step_others:
  "j \<noteq> i \<Longrightarrow> pcOf (stepCall env chainIDs i s) j = pcOf s j"
  by (cases "pcOf s i") (auto simp: stepCall_def split: prod.splits)

lemma step_run:
  assumes "onceInv env chainIDs g s" and "i < length chainIDs"
    and "pcOf s i = SlowLoadDone" and "\<not> onceDone s"
  shows "initialized env chainIDs g (stepCall env chainIDs i s) \<and>
         \<not> onceDone (stepCall env chainIDs i s) \<and>
         pcOf (stepCall env chainIDs i s) i = SlowStoreDone"
proof -
  have "\<forall>j < length chainIDs. pcOf s j \<noteq> SlowStoreDone"
  proof (intro allI impI)
    fix j assume j: "j < length chainIDs"
    show "pcOf s j \<noteq> SlowStoreDone"
    proof (cases "j = i")
      case True
      with assms(3) show ?thesis by simp
    next
      case False
      from others_not_critical[OF assms(1,2) _ j False] assms(3)
      show ?thesis by (auto simp: inCritical_def)
    qed
  qed
  from onceInvD(5)[OF assms(1,4) this] have f: "initRuns s = []" "globals s = g" by simp_all
  have "chainIDs ! i \<in> set chainIDs" using assms(2) by simp
  then show ?thesis
    using assms(2,3,4) f
    by (auto simp: stepCall_def initialized_def split: prod.splits)
qed

lemma initialized_fields:
  "evmInitErr s' = evmInitErr s \<Longrightarrow> globals s' = globals s \<Longrightarrow> initRuns s' = initRuns s \<Longrightarrow>
     initialized env chainIDs g s' = initialized env chainIDs g s"
  by (simp add: initialized_def)

lemma step_sets_done:
  "onceDone (stepCall env chainIDs i s) \<Longrightarrow> \<not> onceDone s \<Longrightarrow>
     i < length chainIDs \<and> pcOf s i = SlowStoreDone"
  by (cases "pcOf s i") (auto simp: stepCall_def split: prod.splits if_splits)

lemma step_keeps_done:
  "pcOf s i \<noteq> SlowStoreDone \<Longrightarrow> onceDone (stepCall env chainIDs i s) = onceDone s"
  by (cases "pcOf s i") (auto simp: stepCall_def split: prod.splits if_splits)

lemma step_outside: "\<not> i < length chainIDs \<Longrightarrow> stepCall env chainIDs i s = s"
  by (simp add: stepCall_def)

lemma step_after:
  assumes "onceInv env chainIDs g s" and "j < length chainIDs"
  shows "(pcOf (stepCall env chainIDs i s) j = SlowUnlock \<longrightarrow> onceDone (stepCall env chainIDs i s)) \<and>
         (pcOf (stepCall env chainIDs i s) j = ReturnErr \<longrightarrow> onceDone (stepCall env chainIDs i s)) \<and>
         (\<forall>r. pcOf (stepCall env chainIDs i s) j = Returned r \<longrightarrow>
            onceDone (stepCall env chainIDs i s) \<and> r = evmInitErr (stepCall env chainIDs i s))"
proof (cases "j = i")
  case True
  with onceInvD(6,7,8)[OF assms] assms(2) show ?thesis
    by (cases "pcOf s i") (auto simp: stepCall_def split: prod.splits)
next
  case False
  have "evmInitErr (stepCall env chainIDs i s) = evmInitErr s" if "onceDone s"
  proof (cases "i < length chainIDs")
    case True
    with that step_fields[of i chainIDs s env] show ?thesis by simp
  next
    case False
    then show ?thesis by (simp add: step_outside)
  qed
  with onceInvD(6,7,8)[OF assms] step_others[OF False, of env chainIDs s]
    step_done[of s env chainIDs i]
  show ?thesis by auto
qed

lemma step_initialized:
  assumes "onceInv env chainIDs g s" and "onceDone (stepCall env chainIDs i s)"
  shows "initialized env chainIDs g (stepCall env chainIDs i s)"
proof (cases "onceDone s")
  case True
  have "initialized env chainIDs g (stepCall env chainIDs i s) = initialized env chainIDs g s"
  proof (cases "i < length chainIDs")
    case True
    with \<open>onceDone s\<close> step_fields[of i chainIDs s env] show ?thesis
      by (intro initialized_fields) simp_all
  next
    case False
    then show ?thesis by (simp add: step_outside)
  qed
  with onceInvD(3)[OF assms(1) True] show ?thesis by simp
next
  case False
  from step_sets_done[OF assms(2) False] have i: "i < length chainIDs" "pcOf s i = SlowStoreDone"
    by simp_all
  from onceInvD(4)[OF assms(1) i] have "initialized env chainIDs g s" by simp
  moreover have "initialized env chainIDs g (stepCall env chainIDs i s) = initialized env chainIDs g s"
    using step_fields[of i chainIDs s env] i by (intro initialized_fields) simp_all
  ultimately show ?thesis by simp
qed

lemma step_store:
  assumes "onceInv env chainIDs g s" and "j < length chainIDs"
    and "pcOf (stepCall env chainIDs i s) j = SlowStoreDone"
  shows "\<not> onceDone (stepCall env chainIDs i s) \<and> initialized env chainIDs g (stepCall env chainIDs i s)"
proof (cases "j = i")
  case True
  with assms(2,3) have "pcOf s i = SlowLoadDone \<and> \<not> onceDone s"
    by (cases "pcOf s i") (auto simp: stepCall_def split: prod.splits if_splits)
  with step_run[OF assms(1), of i] assms(2) True show ?thesis by simp
next
  case False
  with assms(3) have j: "pcOf s j = SlowStoreDone" by (simp add: step_others)
  from onceInvD(4)[OF assms(1,2) j] have d: "\<not> onceDone s" "initialized env chainIDs g s"
    by simp_all
  show ?thesis
  proof (cases "i < length chainIDs")
    case True
    have "inCritical (pcOf s j)" using j by (simp add: inCritical_def)
    with others_not_critical[OF assms(1,2) _ True] False have "\<not> inCritical (pcOf s i)"
      by auto
    then have ni: "pcOf s i \<noteq> SlowLoadDone" "pcOf s i \<noteq> SlowStoreDone"
      by (auto simp: inCritical_def)
    from step_fields[of i chainIDs s env] True ni(1)
    have "initialized env chainIDs g (stepCall env chainIDs i s) = initialized env chainIDs g s"
      by (intro initialized_fields) simp_all
    with d step_keeps_done[OF ni(2), of env chainIDs] show ?thesis by simp
  next
    case False
    with d show ?thesis by (simp add: step_outside)
  qed
qed

lemma step_fresh:
  assumes "onceInv env chainIDs g s" and "\<not> onceDone (stepCall env chainIDs i s)"
    and "\<forall>j < length chainIDs. pcOf (stepCall env chainIDs i s) j \<noteq> SlowStoreDone"
  shows "initRuns (stepCall env chainIDs i s) = [] \<and> globals (stepCall env chainIDs i s) = g"
proof (cases "i < length chainIDs")
  case False
  with assms onceInvD(5)[OF assms(1)] show ?thesis by (simp add: step_outside)
next
  case True
  have nd: "\<not> onceDone s" using assms(2) step_done[of s env chainIDs i] by blast
  have n1: "pcOf s i \<noteq> SlowLoadDone"
    using step_run[OF assms(1) True _ nd] assms(3) True by blast
  have n2: "pcOf s i \<noteq> SlowStoreDone"
    using assms(2) True by (auto simp: stepCall_def)
  have "\<forall>j < length chainIDs. pcOf s j \<noteq> SlowStoreDone"
  proof (intro allI impI)
    fix j assume j: "j < length chainIDs"
    show "pcOf s j \<noteq> SlowStoreDone"
    proof (cases "j = i")
      case True
      with n2 show ?thesis by simp
    next
      case False
      from assms(3) j have "pcOf (stepCall env chainIDs i s) j \<noteq> SlowStoreDone" by blast
      with False show ?thesis by (simp add: step_others)
    qed
  qed
  from onceInvD(5)[OF assms(1) nd this] step_fields[of i chainIDs s env] True n1
  show ?thesis by simp
qed

lemma onceInv_step:
  assumes "onceInv env chainIDs g s"
  shows "onceInv env chainIDs g (stepCall env chainIDs i s)"
  unfolding onceInv_def
  using step_lock[OF assms, of i] step_range[OF assms, of i] step_initialized[OF assms, of i]
    step_store[OF assms, of _ i] step_fresh[OF assms, of i] step_after[OF assms, of _ i]
  by blast

lemma onceInv_exec:
  "onceInv env chainIDs g s \<Longrightarrow> onceInv env chainIDs g (exec env chainIDs schedule s)"
  unfolding exec_def
  by (induction schedule arbitrary: s) (simp_all add: onceInv_step)

lemma onceInv_runs:
  assumes "onceInv env chainIDs g s"
  shows "length (initRuns s) \<le> 1"
proof (cases "onceDone s")
  case True
  from onceInvD(3)[OF assms True] show ?thesis by (auto simp: initialized_def)
next
  case False
  show ?thesis
  proof (cases "\<forall>j < length chainIDs. pcOf s j \<noteq> SlowStoreDone")
    case True
    from onceInvD(5)[OF assms False True] show ?thesis by simp
  next
    case False
    then obtain j where "j < length chainIDs" "pcOf s j = SlowStoreDone" by blast
    from onceInvD(4)[OF assms this] show ?thesis by (auto simp: initialized_def)
  qed
qed

lemma onceInv_returned:
  assumes "onceInv env chainIDs g s" and "i < length chainIDs" and "pcOf s i = Returned r"
  shows "\<exists>c \<in> set chainIDs. initRuns s = [c] \<and> r = fst (initEVM env c g) \<and>
           globals s = snd (initEVM env c g)"
proof -
  from onceInvD(8)[OF assms] have d: "onceDone s" and r: "r = evmInitErr s" by simp_all
  from onceInvD(3)[OF assms(1) d] r show ?thesis by (auto simp: initialized_def)
qed

lemma step_enabled:
  assumes "i < length chainIDs" and "\<forall>r. pcOf s i \<noteq> Returned r"
    and "pcOf s i = SlowLock \<longrightarrow> onceMutex s = None"
  shows "pcOf (stepCall env chainIDs i s) i \<noteq> pcOf s i"
  using assms by (cases "pcOf s i") (auto simp: stepCall_def split: prod.splits)

lemma onceInv_progress:
  assumes "onceInv env chainIDs g s" and "i < length chainIDs" and "\<forall>r. pcOf s i \<noteq> Returned r"
  shows "\<exists>j < length chainIDs. stepCall env chainIDs j s \<noteq> s"
proof (cases "pcOf s i = SlowLock \<and> onceMutex s \<noteq> None")
  case False
  with step_enabled[OF assms(2,3), of env] have "pcOf (stepCall env chainIDs i s) i \<noteq> pcOf s i"
    by blast
  then have "stepCall env chainIDs i s \<noteq> s" by auto
  with assms(2) show ?thesis by blast
next
  case True
  then obtain j where j: "onceMutex s = Some j" by auto
  from onceInvD(2)[OF assms(1) j] have jn: "j < length chainIDs" .
  from onceInvD(1)[OF assms(1) jn] j have "inCritical (pcOf s j)" by simp
  then have "\<forall>r. pcOf s j \<noteq> Returned r" "pcOf s j \<noteq> SlowLock"
    by (auto simp: inCritical_def)
  with step_enabled[OF jn, of s env] have "pcOf (stepCall env chainIDs j s) j \<noteq> pcOf s j"
    by blast
  then have "stepCall env chainIDs j s \<noteq> s" by auto
  with jn show ?thesis by blast
qed

lemma step_remaining:
  "remaining (pcOf (stepCall env chainIDs i s) j) \<le> remaining (pcOf s j)"
  by (cases "pcOf s i") (auto simp: stepCall_def split: prod.splits)

lemma step_remaining_strict:
  assumes "stepCall env chainIDs i s \<noteq> s"
  shows "i < length chainIDs \<and> remaining (pcOf (stepCall env chainIDs i s) i) < remaining (pcOf s i)"
  using assms by (cases "pcOf s i") (auto simp: stepCall_def split: prod.splits if_splits)

lemma step_decreases:
  assumes "stepCall env chainIDs i s \<noteq> s"
  shows "remainingSteps chainIDs (stepCall env chainIDs i s) < remainingSteps chainIDs s"
  unfolding remainingSteps_def
proof (rule sum_strict_mono_ex1)
  show "finite {..<length chainIDs}" by simp
  show "\<forall>j \<in> {..<length chainIDs}.
          remaining (pcOf (stepCall env chainIDs i s) j) \<le> remaining (pcOf s j)"
    by (simp add: step_remaining)
  from step_remaining_strict[OF assms]
  show "\<exists>j \<in> {..<length chainIDs}.
          remaining (pcOf (stepCall env chainIDs i s) j) < remaining (pcOf s j)"
    by auto
qed

section \<open>Evaluation of the concrete instance\<close>

lemma demo_cosmosDecorators:
  "cosmosDecorators demoOptions =
     Ret [NewRejectMessagesDecorator,
          NewAuthzLimiterDecorator [MsgTypeURL MsgEthereumTx, MsgTypeURL MsgCreateVestingAccount],
          NewSetUpContextDecorator,
          LimitSimulationGasDecorator None,
          NewCountTXDecorator (Some 16),
          NewGasRegisterDecorator (GetGasRegister 15),
          NewTxContractsDecorator,
          NewCircuitBreakerDecorator (Some 17),
          NewExtensionOptionsDecorator (Some 7),
          NewValidateBasicDecorator,
          NewTxTimeoutHeightDecorator,
          NewValidateMemoDecorator (Some 1),
          NewMinGasPriceDecorator 10 (Some 9),
          NewConsumeGasForTxSizeDecorator (Some 1),
          NewDeductFeeDecorator (Some 1) (Some 2) None (Some 6),
          NewSetPubKeyDecorator (Some 1),
          NewValidateSigCountDecorator (Some 1),
          NewSigGasConsumeDecorator (Some 1) (Some 5),
          NewSigVerificationDecorator (Some 1) (Some 4),
          NewIncrementSequenceDecorator (Some 1),
          NewRedundantRelayDecorator (Some 13),
          NewGasWantedDecorator (Some 9) 10]"
  by (simp add: cosmosDecorators_def wasmDecorators_def NewLimitSimulationGasDecorator_def
      demoOptions_def)

lemma demo_cosmos: "cosmosDecorators demoOptions = Ret demoCosmosChain"
  by (simp add: demo_cosmosDecorators demoCosmosChain_def)

lemma demo_construct:
  "NewAnteHandler demoAnteHandle demoOptions =
     Ret (Some (process demoAnteHandle demoOptions), None)"
proof -
  have "\<exists>h. NewAnteHandler demoAnteHandle demoOptions = Ret (Some h, None)"
    by (simp add: NewAnteHandler_def NewCosmosAnteHandler_def demo_cosmosDecorators)
       (simp add: demoOptions_def)
  then obtain h where h: "NewAnteHandler demoAnteHandle demoOptions = Ret (Some h, None)" ..
  with process_handler[OF h] show ?thesis by simp
qed

lemma demo_cosmos_handler:
  "NewCosmosAnteHandler demoAnteHandle demoOptions = Ret (Some (chainFrom demoAnteHandle demoCosmosChain))"
  by (simp add: NewCosmosAnteHandler_def demo_cosmos ChainAnteDecorators_def) (simp add: demoCosmosChain_def)

lemma demo_cosmos_run:
  "NewCosmosAnteHandler demoAnteHandle demoOptions = Ret (Some c) \<Longrightarrow>
     c ctx (demoTx ok urls) simulate w =
       (if ok then Ret ((ctx + 10, None), w\<lparr>sequence := sequence w + 1\<rparr>)
        else Ret ((ctx + 10, Some (ErrorsNew ''signature verification failed'')), w))"
  by (auto simp: NewCosmosAnteHandler_def demo_cosmosDecorators ChainAnteDecorators_def
      demoAnteHandle_def passOrAbort_def demoStep_def demoTx_def)

lemma demo_evm_run:
  "NewMonoEVMAnteHandler demoAnteHandle (demoOptions\<lparr>PendingTxListener := l\<rparr>) = Some e \<Longrightarrow>
     e ctx (demoTx ok urls) simulate w =
       (if ok then Ret ((ctx + 21, None), (case l of None \<Rightarrow> w | Some f \<Rightarrow> f 42 w))
        else Ret ((ctx, Some (ErrorsNew ''insufficient funds for intrinsic gas'')), w))"
  by (auto simp: NewMonoEVMAnteHandler_def evmDecorators_def ChainAnteDecorators_def
      demoAnteHandle_def passOrAbort_def demoStep_def demoTx_def notifyPendingTx_def
      split: option.splits)

lemma demo_obeys: "obeys demoAnteHandle demoStep ds" if "\<forall>d \<in> set ds. stepOf d \<noteq> PendingTxNotifier"
  unfolding obeys_def
proof
  fix d assume "d \<in> set ds"
  with that have "stepOf d \<noteq> PendingTxNotifier" by blast
  then show "demoAnteHandle d = passOrAbort (demoStep d)"
    by (cases d) (simp_all add: demoAnteHandle_def)
qed

lemma demo_obeys_cosmos: "obeys demoAnteHandle demoStep demoCosmosChain"
  by (rule demo_obeys) (simp add: demoCosmosChain_def)

lemma demo_preserves: "preservesSeq sequence demoStep tx simulate (exceptIncrement demoCosmosChain)"
  by (simp add: preservesSeq_def exceptIncrement_def demoCosmosChain_def demoStep_def)

lemma demo_increments: "incrementsSeq sequence demoStep tx simulate demoCosmosChain"
  by (auto simp: incrementsSeq_def demoCosmosChain_def demoStep_def)

lemma demo_rejected: "signatureRejected demoStep (demoTx False urls) simulate demoCosmosChain"
  by (simp add: signatureRejected_def demoCosmosChain_def demoStep_def demoTx_def)



lemma demo_initEVM: "initEVM demoEnv ''osmosis-1'' [] = (unknownOsmosis, [])"
  by (simp add: initEVM_def ChainsCoinInfo_def DefaultChainID_def Let_def unknownOsmosis_def)

lemma demo_exec:
  "pcOf (exec demoEnv demoChainIDs demoSchedule (initialState [])) 0 = Returned unknownOsmosis \<and>
   pcOf (exec demoEnv demoChainIDs demoSchedule (initialState [])) 1 = Returned unknownOsmosis \<and>
   initRuns (exec demoEnv demoChainIDs demoSchedule (initialState [])) = [''osmosis-1'']"
  by (simp add: exec_def demoSchedule_def demoChainIDs_def initialState_def stepCall_def
      demo_initEVM)

section \<open>Dispatch correctness\<close>

text \<open>
  Claim C1. Let \<open>h\<close> be the handler returned by \<open>NewAnteHandler\<close>. A transaction has no
  first type URL exactly when it does not expose extension options at all or exposes
  none. For such a transaction \<open>h\<close> returns what the Cosmos chain handler returns on the
  same context, transaction, flag and world, and it returns the same with any other
  handler in place of the EVM handler: the Cosmos chain runs and the EVM chain does
  not. When the first type URL is \<^verbatim>\<open>/cosmos.evm.vm.v1.ExtensionOptionsEthereumTx\<close>, \<open>h\<close>
  returns what the EVM chain handler returns, whatever handler stands in place of the
  Cosmos handler. When it is \<^verbatim>\<open>/cosmos.evm.types.v1.ExtensionOptionDynamicFeeTx\<close>, \<open>h\<close>
  returns what the Cosmos chain handler returns. For any other first type URL, \<open>h\<close>
  returns the UnknownExtensionOptions error, whatever the two handlers are: neither
  chain runs.
\<close>

theorem NewAnteHandler_dispatch:
  assumes "NewAnteHandler ah options = Ret (Some h, None)"
  shows "(firstTypeUrl tx = None \<longleftrightarrow>
            asHasExtensionOptionsTx tx = None \<or> asHasExtensionOptionsTx tx = Some []) \<and>
         (\<exists>cosmosAnteHandler evmAnteHandler.
           NewCosmosAnteHandler ah options = Ret (Some cosmosAnteHandler) \<and>
           NewMonoEVMAnteHandler ah options = Some evmAnteHandler \<and>
           (firstTypeUrl tx = None \<longrightarrow>
              h ctx tx simulate w = cosmosAnteHandler ctx tx simulate w \<and>
              (\<forall>e. anteHandlerFunc (Some cosmosAnteHandler) e ctx tx simulate w
                     = h ctx tx simulate w)) \<and>
           (firstTypeUrl tx = Some ethereumTxUrl \<longrightarrow>
              h ctx tx simulate w = evmAnteHandler ctx tx simulate w \<and>
              (\<forall>c. anteHandlerFunc c (Some evmAnteHandler) ctx tx simulate w
                     = h ctx tx simulate w)) \<and>
           (firstTypeUrl tx = Some dynamicFeeTxUrl \<longrightarrow>
              h ctx tx simulate w = cosmosAnteHandler ctx tx simulate w \<and>
              (\<forall>e. anteHandlerFunc (Some cosmosAnteHandler) e ctx tx simulate w
                     = h ctx tx simulate w)) \<and>
           (\<forall>url. firstTypeUrl tx = Some url \<and> url \<noteq> ethereumTxUrl \<and> url \<noteq> dynamicFeeTxUrl \<longrightarrow>
              h ctx tx simulate w = Ret ((ctx, Some (unknownExtension url)), w) \<and>
              (\<forall>c e. anteHandlerFunc c e ctx tx simulate w = h ctx tx simulate w)))"
proof -
  from NewAnteHandler_Some[OF assms] obtain ds where
    cos: "NewCosmosAnteHandler ah options = Ret (Some (chainFrom ah ds))" and
    evm: "NewMonoEVMAnteHandler ah options = Some (chainFrom ah (evmDecorators options))" and
    h: "h = anteHandlerFunc (Some (chainFrom ah ds)) (Some (chainFrom ah (evmDecorators options)))"
    by blast
  have neq: "ethereumTxUrl \<noteq> dynamicFeeTxUrl"
    by (simp add: ethereumTxUrl_def dynamicFeeTxUrl_def)
  have "\<exists>cosmosAnteHandler evmAnteHandler.
           NewCosmosAnteHandler ah options = Ret (Some cosmosAnteHandler) \<and>
           NewMonoEVMAnteHandler ah options = Some evmAnteHandler \<and>
           (firstTypeUrl tx = None \<longrightarrow>
              h ctx tx simulate w = cosmosAnteHandler ctx tx simulate w \<and>
              (\<forall>e. anteHandlerFunc (Some cosmosAnteHandler) e ctx tx simulate w
                     = h ctx tx simulate w)) \<and>
           (firstTypeUrl tx = Some ethereumTxUrl \<longrightarrow>
              h ctx tx simulate w = evmAnteHandler ctx tx simulate w \<and>
              (\<forall>c. anteHandlerFunc c (Some evmAnteHandler) ctx tx simulate w
                     = h ctx tx simulate w)) \<and>
           (firstTypeUrl tx = Some dynamicFeeTxUrl \<longrightarrow>
              h ctx tx simulate w = cosmosAnteHandler ctx tx simulate w \<and>
              (\<forall>e. anteHandlerFunc (Some cosmosAnteHandler) e ctx tx simulate w
                     = h ctx tx simulate w)) \<and>
           (\<forall>url. firstTypeUrl tx = Some url \<and> url \<noteq> ethereumTxUrl \<and> url \<noteq> dynamicFeeTxUrl \<longrightarrow>
              h ctx tx simulate w = Ret ((ctx, Some (unknownExtension url)), w) \<and>
              (\<forall>c e. anteHandlerFunc c e ctx tx simulate w = h ctx tx simulate w))"
    apply (rule exI[of _ "chainFrom ah ds"])
    apply (rule exI[of _ "chainFrom ah (evmDecorators options)"])
    using cos evm neq
    by (simp add: h anteHandlerFunc_none anteHandlerFunc_first call_def)
  with firstTypeUrl_None[of tx] show ?thesis by blast
qed

text \<open>
  In the instance: a transaction without extension options goes through the Cosmos
  chain (gas 10, sequence 5 to 6), one with the Ethereum-transaction option through the
  EVM chain (gas 21, sequence untouched).
\<close>

theorem NewAnteHandler_dispatch_witness:
  "NewAnteHandler demoAnteHandle demoOptions = Ret (Some (process demoAnteHandle demoOptions), None) \<and>
   firstTypeUrl (demoTx True None) = None \<and>
   process demoAnteHandle demoOptions 0 (demoTx True None) False demoWorld0
     = Ret ((10, None), \<lparr> sequence = 6, notified = [] \<rparr>) \<and>
   firstTypeUrl (demoTx True (Some [ethereumTxUrl])) = Some ethereumTxUrl \<and>
   process demoAnteHandle demoOptions 0 (demoTx True (Some [ethereumTxUrl])) False demoWorld0
     = Ret ((21, None), demoWorld0) \<and>
   firstTypeUrl (demoTx True (Some [dynamicFeeTxUrl])) = Some dynamicFeeTxUrl \<and>
   process demoAnteHandle demoOptions 0 (demoTx True (Some [dynamicFeeTxUrl])) False demoWorld0
     = Ret ((10, None), \<lparr> sequence = 6, notified = [] \<rparr>) \<and>
   firstTypeUrl (demoTx True (Some [''/unknown.v1.Bogus''])) = Some ''/unknown.v1.Bogus'' \<and>
   process demoAnteHandle demoOptions 0 (demoTx True (Some [''/unknown.v1.Bogus''])) False demoWorld0
     = Ret ((0, Some (unknownExtension ''/unknown.v1.Bogus'')), demoWorld0)"
proof -
  let ?h = "process demoAnteHandle demoOptions"
  have u1: "firstTypeUrl (demoTx True None) = None"
    by (simp add: firstTypeUrl_def extensionOptionsOf_def demoTx_def)
  have u2: "firstTypeUrl (demoTx True (Some [u])) = Some u" for u
    by (simp add: firstTypeUrl_def extensionOptionsOf_def demoTx_def GetTypeUrl_def)
  have n: "''/unknown.v1.Bogus'' \<noteq> ethereumTxUrl" "''/unknown.v1.Bogus'' \<noteq> dynamicFeeTxUrl"
    "ethereumTxUrl \<noteq> dynamicFeeTxUrl"
    by (simp_all add: ethereumTxUrl_def dynamicFeeTxUrl_def)
  from NewAnteHandler_dispatch[OF demo_construct, of "demoTx True None" 0 False demoWorld0]
  obtain c where c: "NewCosmosAnteHandler demoAnteHandle demoOptions = Ret (Some c)"
    and r1: "?h 0 (demoTx True None) False demoWorld0 = c 0 (demoTx True None) False demoWorld0"
    using u1 by auto
  from NewAnteHandler_dispatch[OF demo_construct, of "demoTx True (Some [ethereumTxUrl])" 0 False demoWorld0]
  obtain e where e: "NewMonoEVMAnteHandler demoAnteHandle demoOptions = Some e"
    and r2: "?h 0 (demoTx True (Some [ethereumTxUrl])) False demoWorld0
               = e 0 (demoTx True (Some [ethereumTxUrl])) False demoWorld0"
    using u2 by auto
  from NewAnteHandler_dispatch[OF demo_construct, of "demoTx True (Some [dynamicFeeTxUrl])" 0 False demoWorld0] c
  have r3: "?h 0 (demoTx True (Some [dynamicFeeTxUrl])) False demoWorld0
               = c 0 (demoTx True (Some [dynamicFeeTxUrl])) False demoWorld0"
    using u2 by auto
  from NewAnteHandler_dispatch[OF demo_construct, of "demoTx True (Some [''/unknown.v1.Bogus''])" 0 False demoWorld0]
  have r4: "?h 0 (demoTx True (Some [''/unknown.v1.Bogus''])) False demoWorld0
               = Ret ((0, Some (unknownExtension ''/unknown.v1.Bogus'')), demoWorld0)"
    using u2 n by auto
  have e': "NewMonoEVMAnteHandler demoAnteHandle (demoOptions\<lparr>PendingTxListener := None\<rparr>) = Some e"
    using e by (simp add: demoOptions_def)
  show ?thesis
    using demo_construct u1 u2 r1 r2 r3 r4 demo_cosmos_run[OF c] demo_evm_run[OF e']
    by (simp add: demoWorld0_def)
qed

section \<open>Rejection of an unknown extension option\<close>

text \<open>
  Claim C2. For a transaction whose first extension option's type URL is neither of the
  two known identifiers, the handler returned by \<open>NewAnteHandler\<close> returns an error that
  wraps \<open>ErrUnknownExtensionOptions\<close> and carries the offending type URL; the context it
  returns is the input context and the world is the input world (nothing was charged or
  written); the result is the same whatever the two chain handlers are, so neither was
  invoked.
\<close>

theorem NewAnteHandler_unknown_extension:
  assumes "NewAnteHandler ah options = Ret (Some h, None)"
    and "firstTypeUrl tx = Some url"
    and "url \<noteq> ethereumTxUrl" and "url \<noteq> dynamicFeeTxUrl"
  shows "h ctx tx simulate w = 
           Ret ((ctx, Some (Wrapf ErrUnknownExtensionOptions
                   (''rejecting tx with unsupported extension option: '' @ url))), w) \<and>
         (\<forall>c e. anteHandlerFunc c e ctx tx simulate w = h ctx tx simulate w)"
proof -
  from NewAnteHandler_Some[OF assms(1)] obtain c e where h: "h = anteHandlerFunc c e"
    by blast
  show ?thesis
    using assms(2-4) by (simp add: h anteHandlerFunc_first unknownExtension_def)
qed

text \<open>
  In the instance, with the leading type URL \<^verbatim>\<open>/unknown.v1.Bogus\<close>.
\<close>

theorem NewAnteHandler_unknown_extension_witness:
  "NewAnteHandler demoAnteHandle demoOptions = Ret (Some (process demoAnteHandle demoOptions), None) \<and>
   firstTypeUrl (demoTx True (Some [''/unknown.v1.Bogus''])) = Some ''/unknown.v1.Bogus'' \<and>
   process demoAnteHandle demoOptions 0 (demoTx True (Some [''/unknown.v1.Bogus''])) False demoWorld0
     = Ret ((0, Some (Wrapf ErrUnknownExtensionOptions
          ''rejecting tx with unsupported extension option: /unknown.v1.Bogus'')), demoWorld0)"
proof -
  have u: "firstTypeUrl (demoTx True (Some [''/unknown.v1.Bogus''])) = Some ''/unknown.v1.Bogus''"
    by (simp add: firstTypeUrl_def extensionOptionsOf_def demoTx_def GetTypeUrl_def)
  have n: "''/unknown.v1.Bogus'' \<noteq> ethereumTxUrl" "''/unknown.v1.Bogus'' \<noteq> dynamicFeeTxUrl"
    by (simp_all add: ethereumTxUrl_def dynamicFeeTxUrl_def)
  from NewAnteHandler_unknown_extension[OF demo_construct u n, of 0 False demoWorld0] demo_construct u
  show ?thesis by simp
qed

section \<open>Validation of the options\<close>

text \<open>
  Claim C3, as the code has it. When one of the thirteen options that
  \<open>NewAnteHandler\<close> checks (account keeper, bank keeper, sign-mode handler,
  extension-option checker, tx fee checker, signature gas consumer, codec, EVM keeper,
  WASM node config, tx-counter store service, WASM keeper, circuit keeper, IBC keeper)
  is nil, \<open>NewAnteHandler\<close> returns no handler and an error that names a missing option.
\<close>

theorem NewAnteHandler_required_options:
  "requiredOptionMissing options \<Longrightarrow>
     \<exists>name \<in> set requiredOptionNames. NewAnteHandler ah options =
        Ret (None, Some (ErrorsNew (name @ '' is required for ante builder'')))"
  using NewAnteHandler_missing[of options ah] by blast

text \<open>
  In the instance: without the codec construction fails with the codec's error.
\<close>

theorem NewAnteHandler_required_options_witness:
  "requiredOptionMissing (demoOptions\<lparr>Cdc := None\<rparr>) \<and>
   NewAnteHandler demoAnteHandle (demoOptions\<lparr>Cdc := None\<rparr>)
     = Ret (None, Some (ErrorsNew ''codec is required for ante builder''))"
proof -
  have m: "requiredOptionMissing (demoOptions\<lparr>Cdc := None\<rparr>)"
    by (simp add: requiredOptionMissing_def)
  from NewAnteHandler_required_options[OF m, of demoAnteHandle]
  obtain name where "NewAnteHandler demoAnteHandle (demoOptions\<lparr>Cdc := None\<rparr>)
       = Ret (None, Some (ErrorsNew (name @ '' is required for ante builder'')))"
    by blast
  moreover have "NewAnteHandler demoAnteHandle (demoOptions\<lparr>Cdc := None\<rparr>)
       = Ret (None, Some (ErrorsNew ''codec is required for ante builder''))"
    by (simp add: NewAnteHandler_def demoOptions_def)
  ultimately show ?thesis using m by simp
qed

text \<open>
  Claim C3 as stated also lists the fee-grant store and the pending-tx listener among
  the options whose absence makes construction fail. The options of the instance have
  neither, and construction succeeds.
\<close>

theorem NewAnteHandler_optional_fields_counterexample:
  "FeegrantKeeper demoOptions = None \<and>
   PendingTxListener demoOptions = None \<and>
   NewAnteHandler demoAnteHandle demoOptions
     = Ret (Some (process demoAnteHandle demoOptions), None)"
  using demo_construct by (simp add: demoOptions_def)

section \<open>Order of the Cosmos chain\<close>

text \<open>
  Claim C4. When the WASM node config and the WASM keeper are present and the
  simulation gas limit of the node config is not a zero value (on which
  \<^verbatim>\<open>NewLimitSimulationGasDecorator\<close> panics), \<open>NewCosmosAnteHandler\<close> returns the composition, first decorator outermost, of a list
  of decorators whose steps are exactly the specification's ordering table:
  reject-unsupported-message and authz limiter, context setup, the four WASM checks,
  circuit breaker, the extension-option, basic, timeout-height and memo validators,
  minimum gas price, size-based gas consumption, fee deduction, public-key setting,
  signature-count validation, signature gas consumption, signature verification,
  sequence increment, redundant-relay filter, gas-wanted validation. In particular fee
  deduction comes before signature gas consumption and before signature verification.
\<close>

theorem NewCosmosAnteHandler_order:
  assumes "NodeConfig options = Some nodeConfig"
    and "SimulationGasLimit nodeConfig \<noteq> Some 0"
    and "WasmKeeper options \<noteq> None"
  shows "\<exists>ds. cosmosDecorators options = Ret ds \<and>
           NewCosmosAnteHandler ah options = Ret (Some (chainFrom ah ds)) \<and>
           map stepOf ds = cosmosChainOrder \<and>
           precedes FeeDeduction SignatureGasConsumption (map stepOf ds) \<and>
           precedes FeeDeduction SignatureVerification (map stepOf ds)"
  using assms
  by (auto simp: cosmosDecorators_def wasmDecorators_def NewLimitSimulationGasDecorator_def
      NewCosmosAnteHandler_def ChainAnteDecorators_def cosmosChainOrder_def precedes_def)

theorem NewCosmosAnteHandler_order_witness:
  "NodeConfig demoOptions = Some \<lparr> SimulationGasLimit = None \<rparr> \<and>
   SimulationGasLimit \<lparr> SimulationGasLimit = None \<rparr> \<noteq> Some 0 \<and>
   WasmKeeper demoOptions \<noteq> None \<and>
   NewCosmosAnteHandler demoAnteHandle demoOptions
     = Ret (Some (chainFrom demoAnteHandle demoCosmosChain)) \<and>
   map stepOf demoCosmosChain = cosmosChainOrder"
proof -
  have n: "NodeConfig demoOptions = Some \<lparr> SimulationGasLimit = None \<rparr>"
    "SimulationGasLimit \<lparr> SimulationGasLimit = None \<rparr> \<noteq> Some 0"
    "WasmKeeper demoOptions \<noteq> None"
    by (simp_all add: demoOptions_def)
  from NewCosmosAnteHandler_order[OF n, of demoAnteHandle] demo_cosmos
  have "NewCosmosAnteHandler demoAnteHandle demoOptions
          = Ret (Some (chainFrom demoAnteHandle demoCosmosChain)) \<and>
        map stepOf demoCosmosChain = cosmosChainOrder"
    by auto
  with n show ?thesis by simp
qed

section \<open>Sequence increment only after signature verification\<close>

text \<open>
  Claim C5. In a run of the Cosmos chain handler:
  \<^item> if the decorators in front of the sequence increment obey the pass-or-abort
    contract and leave the signer's sequence number alone, and signature verification
    rejects the transaction, then the run returns an error and the sequence number in
    the resulting world is the one before the run, whatever the sequence-increment
    decorator and the decorators after it would do: they do not run;
  \<^item> if all decorators obey the contract, all but the sequence increment leave the
    sequence number alone and a passing sequence increment advances it by one, then a
    run that returns a nil error leaves the sequence number advanced by exactly one.
\<close>

theorem sequence_increment_after_signature:
  fixes seq :: "'w \<Rightarrow> nat"
  assumes "NewCosmosAnteHandler ah options = Ret (Some cosmosAnteHandler)"
    and "cosmosDecorators options = Ret ds"
  shows "(obeys ah st (beforeIncrement ds) \<and>
          preservesSeq seq st tx simulate (beforeIncrement ds) \<and>
          signatureRejected st tx simulate ds \<longrightarrow>
            (\<exists>ctx' e w'. cosmosAnteHandler ctx tx simulate w = Ret ((ctx', Some e), w') \<and>
                          seq w' = seq w)) \<and>
         (obeys ah st ds \<and>
          preservesSeq seq st tx simulate (exceptIncrement ds) \<and>
          incrementsSeq seq st tx simulate ds \<longrightarrow>
            (\<exists>ctx' err w'. cosmosAnteHandler ctx tx simulate w = Ret ((ctx', err), w') \<and>
                            (err = None \<longrightarrow> seq w' = seq w + 1)))"
proof -
  let ?inc = "NewIncrementSequenceDecorator (AccountKeeper options)"
  let ?sig = "NewSigVerificationDecorator (AccountKeeper options) (SignModeHandler options)"
  from cosmos_split[OF assms(2)] obtain front rear where
    ds: "ds = front @ ?inc # rear" and front: "beforeIncrement ds = front"
    and rest: "exceptIncrement ds = front @ rear" and sig: "?sig \<in> set front"
    by blast
  have h: "cosmosAnteHandler = chainFrom ah ds"
    using assms by (auto simp: NewCosmosAnteHandler_def ChainAnteDecorators_def split: if_splits)
  have part1: "\<exists>ctx' e w'. cosmosAnteHandler ctx tx simulate w = Ret ((ctx', Some e), w') \<and> seq w' = seq w"
    if ob: "obeys ah st (beforeIncrement ds)"
      and pres: "preservesSeq seq st tx simulate (beforeIncrement ds)"
      and rj: "signatureRejected st tx simulate ds"
  proof -
    obtain c err w1 where r: "runSteps st front ctx tx simulate w = ((c, err), w1)"
      by (metis surj_pair)
    have "?sig \<in> set ds" using ds sig by simp
    with rj have ab: "\<And>ctx w. aborted (fst (st ?sig ctx tx simulate w))"
      by (simp add: signatureRejected_def)
    have "snd (fst (runSteps st front ctx tx simulate w)) \<noteq> None"
      using sig ab by (rule runSteps_rejected)
    with r obtain e where e: "err = Some e"
      by auto
    from runSteps_preserves[OF pres[unfolded front], of ctx w] r have "seq w1 = seq w"
      by simp
    moreover have "cosmosAnteHandler ctx tx simulate w = Ret ((c, Some e), w1)"
      using chainFrom_append[OF ob[unfolded front], of "?inc # rear" ctx tx simulate w] r e
      by (simp add: h ds)
    ultimately show ?thesis by blast
  qed
  have part2: "\<exists>ctx' err w'. cosmosAnteHandler ctx tx simulate w = Ret ((ctx', err), w') \<and>
                 (err = None \<longrightarrow> seq w' = seq w + 1)"
    if ob: "obeys ah st ds"
      and pres: "preservesSeq seq st tx simulate (exceptIncrement ds)"
      and inc: "incrementsSeq seq st tx simulate ds"
  proof -
    have pfront: "preservesSeq seq st tx simulate front" and prear: "preservesSeq seq st tx simulate rear"
      using pres by (auto simp: rest preservesSeq_def)
    have incd: "\<And>ctx w ctx' w'. st ?inc ctx tx simulate w = (Pass ctx', w') \<Longrightarrow> seq w' = seq w + 1"
      using inc by (simp add: incrementsSeq_def ds)
    obtain c err w1 where r: "runSteps st ds ctx tx simulate w = ((c, err), w1)"
      by (metis surj_pair)
    have run: "cosmosAnteHandler ctx tx simulate w = Ret ((c, err), w1)"
      using chainFrom_runSteps[OF ob, of ctx tx simulate w] r by (simp add: h)
    have "seq w1 = seq w + 1" if "err = None"
    proof -
      obtain c1 e1 w2 where r1: "runSteps st front ctx tx simulate w = ((c1, e1), w2)"
        by (metis surj_pair)
      from runSteps_preserves[OF pfront, of ctx w] r1 have s2: "seq w2 = seq w" by simp
      have e1: "e1 = None"
        using r r1 that by (cases e1) (simp_all add: ds runSteps_append)
      obtain v w3 where si: "st ?inc c1 tx simulate w2 = (v, w3)" by (metis surj_pair)
      have rr: "runSteps st (?inc # rear) c1 tx simulate w2 = ((c, err), w1)"
        using r r1 e1 by (simp add: ds runSteps_append)
      show ?thesis
      proof (cases v)
        case (Abort c' e')
        with rr si that show ?thesis by simp
      next
        case (Pass c')
        with incd si have s3: "seq w3 = seq w2 + 1" by simp
        from rr si Pass have "runSteps st rear c' tx simulate w3 = ((c, err), w1)" by simp
        with runSteps_preserves[OF prear, of c' w3] have "seq w1 = seq w3" by simp
        with s2 s3 show ?thesis by simp
      qed
    qed
    with run show ?thesis by blast
  qed
  from part1 part2 show ?thesis by blast
qed

text \<open>
  In the instance: the transaction with the bad signature is rejected with the sequence
  number still 5; the good one is admitted with sequence number 6.
\<close>

theorem sequence_increment_after_signature_witness:
  "NewCosmosAnteHandler demoAnteHandle demoOptions
     = Ret (Some (chainFrom demoAnteHandle demoCosmosChain)) \<and>
   cosmosDecorators demoOptions = Ret demoCosmosChain \<and>
   obeys demoAnteHandle demoStep demoCosmosChain \<and>
   preservesSeq sequence demoStep (demoTx False None) False (exceptIncrement demoCosmosChain) \<and>
   signatureRejected demoStep (demoTx False None) False demoCosmosChain \<and>
   incrementsSeq sequence demoStep (demoTx True None) False demoCosmosChain \<and>
   chainFrom demoAnteHandle demoCosmosChain 0 (demoTx False None) False demoWorld0
     = Ret ((10, Some (ErrorsNew ''signature verification failed'')), demoWorld0) \<and>
   sequence demoWorld0 = 5 \<and>
   chainFrom demoAnteHandle demoCosmosChain 0 (demoTx True None) False demoWorld0
     = Ret ((10, None), \<lparr> sequence = 6, notified = [] \<rparr>)"
proof -
  have ob: "obeys demoAnteHandle demoStep (beforeIncrement demoCosmosChain)"
    by (rule demo_obeys) (simp add: beforeIncrement_def demoCosmosChain_def)
  have pb: "preservesSeq sequence demoStep (demoTx False None) False (beforeIncrement demoCosmosChain)"
    by (simp add: beforeIncrement_def preservesSeq_def demoCosmosChain_def demoStep_def)
  note si = sequence_increment_after_signature[OF demo_cosmos_handler demo_cosmos,
      of demoStep sequence _ False 0 demoWorld0]
  from si[of "demoTx False None"] ob pb demo_rejected
  obtain c1 e1 w1 where
    r1: "chainFrom demoAnteHandle demoCosmosChain 0 (demoTx False None) False demoWorld0
           = Ret ((c1, Some e1), w1)" and s1: "sequence w1 = sequence demoWorld0"
    by blast
  from si[of "demoTx True None"] demo_obeys_cosmos demo_preserves demo_increments
  obtain c2 e2 w2 where
    r2: "chainFrom demoAnteHandle demoCosmosChain 0 (demoTx True None) False demoWorld0
           = Ret ((c2, e2), w2)" and s2: "e2 = None \<longrightarrow> sequence w2 = sequence demoWorld0 + 1"
    by blast
  have v1: "chainFrom demoAnteHandle demoCosmosChain 0 (demoTx False None) False demoWorld0
     = Ret ((10, Some (ErrorsNew ''signature verification failed'')), demoWorld0)"
    using demo_cosmos_run[OF demo_cosmos_handler, of 0 False None False demoWorld0] by simp
  have v2: "chainFrom demoAnteHandle demoCosmosChain 0 (demoTx True None) False demoWorld0
     = Ret ((10, None), \<lparr> sequence = 6, notified = [] \<rparr>)"
    using demo_cosmos_run[OF demo_cosmos_handler, of 0 True None False demoWorld0]
    by (simp add: demoWorld0_def)
  show ?thesis
    using demo_cosmos_handler demo_cosmos demo_obeys_cosmos demo_preserves demo_rejected
      demo_increments v1 v2 r1 s1 r2 s2
    by (simp add: demoWorld0_def)
qed

section \<open>What the handler returns\<close>

text \<open>
  Claim C6, as the code has it. The handler returned by \<open>NewAnteHandler\<close> returns exactly
  what the chain it selects returns, context, error and world alike; on an unknown
  leading extension option it returns the input context and world with the
  UnknownExtensionOptions error. When the decorators of the selected chain obey the
  pass-or-abort contract, the result is that of running their steps in order: a non-nil
  error is the error of the first decorator that aborts, returned with the context and
  world that decorator left (every decorator in front of it passed, none after it ran);
  a nil error means that every decorator of the chain ran and passed. The handler does
  not put the pre-call context back: discarding what a failed run did is the caller's
  part.
\<close>

theorem NewAnteHandler_returns_chain_result:
  assumes "NewAnteHandler ah options = Ret (Some h, None)"
    and "cosmosDecorators options = Ret cs"
  shows "case selectedChain cs (evmDecorators options) tx of
           None \<Rightarrow> (\<exists>url. firstTypeUrl tx = Some url \<and>
                      h ctx tx simulate w = Ret ((ctx, Some (unknownExtension url)), w))
         | Some ds \<Rightarrow>
             h ctx tx simulate w = chainFrom ah ds ctx tx simulate w \<and>
             (obeys ah st ds \<longrightarrow>
                h ctx tx simulate w = Ret (runSteps st ds ctx tx simulate w) \<and>
                (\<forall>ctx' e w'. h ctx tx simulate w = Ret ((ctx', Some e), w') \<longrightarrow>
                   (\<exists>pre d post c1 w1. ds = pre @ d # post \<and>
                      runSteps st pre ctx tx simulate w = ((c1, None), w1) \<and>
                      st d c1 tx simulate w1 = (Abort ctx' e, w'))) \<and>
                (\<forall>ctx' w'. h ctx tx simulate w = Ret ((ctx', None), w') \<longrightarrow>
                   (\<forall>pre d post. ds = pre @ d # post \<longrightarrow>
                      (\<exists>c1 w1 c2 w2. runSteps st pre ctx tx simulate w = ((c1, None), w1) \<and>
                         st d c1 tx simulate w1 = (Pass c2, w2)))))"
proof (cases "selectedChain cs (evmDecorators options) tx")
  case None
  with handler_selected[OF assms, of tx ctx simulate w] show ?thesis by simp
next
  case (Some ds)
  with handler_selected[OF assms, of tx ctx simulate w]
  have h: "h ctx tx simulate w = chainFrom ah ds ctx tx simulate w" by simp
  have "h ctx tx simulate w = Ret (runSteps st ds ctx tx simulate w) \<and>
        (\<forall>ctx' e w'. h ctx tx simulate w = Ret ((ctx', Some e), w') \<longrightarrow>
           (\<exists>pre d post c1 w1. ds = pre @ d # post \<and>
              runSteps st pre ctx tx simulate w = ((c1, None), w1) \<and>
              st d c1 tx simulate w1 = (Abort ctx' e, w'))) \<and>
        (\<forall>ctx' w'. h ctx tx simulate w = Ret ((ctx', None), w') \<longrightarrow>
           (\<forall>pre d post. ds = pre @ d # post \<longrightarrow>
              (\<exists>c1 w1 c2 w2. runSteps st pre ctx tx simulate w = ((c1, None), w1) \<and>
                 st d c1 tx simulate w1 = (Pass c2, w2))))"
    if ob: "obeys ah st ds"
  proof -
    have r: "h ctx tx simulate w = Ret (runSteps st ds ctx tx simulate w)"
      using chainFrom_runSteps[OF ob] h by simp
    show ?thesis
      using r runSteps_abort_split[of st ds ctx tx simulate w]
        runSteps_pass_all[of st ds ctx tx simulate w]
      by auto
  qed
  with Some h show ?thesis by simp
qed

text \<open>
  In the instance, for the transaction with the bad signature.
\<close>

theorem NewAnteHandler_returns_chain_result_witness:
  "NewAnteHandler demoAnteHandle demoOptions
     = Ret (Some (process demoAnteHandle demoOptions), None) \<and>
   cosmosDecorators demoOptions = Ret demoCosmosChain \<and>
   obeys demoAnteHandle demoStep demoCosmosChain \<and>
   selectedChain demoCosmosChain (evmDecorators demoOptions) (demoTx False None)
     = Some demoCosmosChain \<and>
   process demoAnteHandle demoOptions 0 (demoTx False None) False demoWorld0
     = Ret (runSteps demoStep demoCosmosChain 0 (demoTx False None) False demoWorld0) \<and>
   runSteps demoStep demoCosmosChain 0 (demoTx False None) False demoWorld0
     = ((10, Some (ErrorsNew ''signature verification failed'')), demoWorld0) \<and>
   selectedChain demoCosmosChain (evmDecorators demoOptions) (demoTx True None)
     = Some demoCosmosChain \<and>
   process demoAnteHandle demoOptions 0 (demoTx True None) False demoWorld0
     = Ret (runSteps demoStep demoCosmosChain 0 (demoTx True None) False demoWorld0) \<and>
   runSteps demoStep demoCosmosChain 0 (demoTx True None) False demoWorld0
     = ((10, None), \<lparr> sequence = 6, notified = [] \<rparr>) \<and>
   selectedChain demoCosmosChain (evmDecorators demoOptions)
       (demoTx True (Some [''/unknown.v1.Bogus''])) = None \<and>
   process demoAnteHandle demoOptions 0 (demoTx True (Some [''/unknown.v1.Bogus''])) False demoWorld0
     = Ret ((0, Some (unknownExtension ''/unknown.v1.Bogus'')), demoWorld0)"
proof -
  let ?bogus = "demoTx True (Some [''/unknown.v1.Bogus''])"
  have s: "selectedChain demoCosmosChain (evmDecorators demoOptions) (demoTx ok None)
             = Some demoCosmosChain" for ok
    by (simp add: selectedChain_def firstTypeUrl_def extensionOptionsOf_def demoTx_def)
  have u: "firstTypeUrl ?bogus = Some ''/unknown.v1.Bogus''"
    by (simp add: firstTypeUrl_def extensionOptionsOf_def demoTx_def GetTypeUrl_def)
  have sb: "selectedChain demoCosmosChain (evmDecorators demoOptions) ?bogus = None"
    by (simp add: selectedChain_def u ethereumTxUrl_def dynamicFeeTxUrl_def)
  have r1: "runSteps demoStep demoCosmosChain 0 (demoTx False None) False demoWorld0
     = ((10, Some (ErrorsNew ''signature verification failed'')), demoWorld0)"
    by (simp add: demoCosmosChain_def demoStep_def demoTx_def)
  have r2: "runSteps demoStep demoCosmosChain 0 (demoTx True None) False demoWorld0
     = ((10, None), \<lparr> sequence = 6, notified = [] \<rparr>)"
    by (simp add: demoCosmosChain_def demoStep_def demoTx_def demoWorld0_def)
  note p1 = NewAnteHandler_returns_chain_result[OF demo_construct demo_cosmos,
      of "demoTx False None" 0 False demoWorld0 demoStep, unfolded s option.case]
  note p2 = NewAnteHandler_returns_chain_result[OF demo_construct demo_cosmos,
      of "demoTx True None" 0 False demoWorld0 demoStep, unfolded s option.case]
  note p3 = NewAnteHandler_returns_chain_result[OF demo_construct demo_cosmos,
      of ?bogus 0 False demoWorld0 demoStep, unfolded sb option.case]
  from p1 demo_obeys_cosmos
  have q1: "process demoAnteHandle demoOptions 0 (demoTx False None) False demoWorld0
     = Ret (runSteps demoStep demoCosmosChain 0 (demoTx False None) False demoWorld0)"
    by blast
  from p2 demo_obeys_cosmos
  have q2: "process demoAnteHandle demoOptions 0 (demoTx True None) False demoWorld0
     = Ret (runSteps demoStep demoCosmosChain 0 (demoTx True None) False demoWorld0)"
    by blast
  from p3 u
  have q3: "process demoAnteHandle demoOptions 0 ?bogus False demoWorld0
     = Ret ((0, Some (unknownExtension ''/unknown.v1.Bogus'')), demoWorld0)"
    by auto
  from demo_construct demo_cosmos s sb demo_obeys_cosmos r1 r2 q1 q2 q3 show ?thesis by simp
qed

text \<open>
  Claim C6 as stated says that with a non-nil error the returned context is the pre-call
  context, with no gas charge from a decorator that ran. In the instance the run starts
  with 0 gas consumed; the size-based gas step charges 10 and signature verification
  then fails: the error comes back with the context that holds the charge.
\<close>

theorem NewAnteHandler_no_rollback_counterexample:
  "process demoAnteHandle demoOptions 0 (demoTx False None) False demoWorld0
     = Ret ((10, Some (ErrorsNew ''signature verification failed'')), demoWorld0) \<and>
   (10 :: nat) \<noteq> 0"
proof -
  have "firstTypeUrl (demoTx False None) = None"
    by (simp add: firstTypeUrl_def extensionOptionsOf_def demoTx_def)
  with NewAnteHandler_Some[OF demo_construct] demo_cosmos
  have "process demoAnteHandle demoOptions 0 (demoTx False None) False demoWorld0
          = chainFrom demoAnteHandle demoCosmosChain 0 (demoTx False None) False demoWorld0"
    by (auto simp: anteHandlerFunc_none call_def)
  with demo_cosmos_run[OF demo_cosmos_handler, of 0 False None False demoWorld0]
  show ?thesis by simp
qed

section \<open>The EVM chain\<close>



section \<open>Once-only initialization\<close>

text \<open>
  Claim C8. For any number of calls of \<open>EVMAppOptions\<close>, with any chain IDs, and any
  interleaving of their steps (calls one after another are the interleavings that
  finish one call before the next starts): \<^verbatim>\<open>initEVM\<close> has been executed at most once;
  every call that has returned has returned the outcome of one execution of \<^verbatim>\<open>initEVM\<close>,
  from the initial process-wide state and for the chain ID of one of the calls, and that
  execution is the only one there has been; as long as some call has not returned, some
  call can take a step that changes the state; and every such step lowers the number of
  steps that remain, so every call returns.
\<close>

theorem EVMAppOptions_once:
  "length (initRuns (exec env chainIDs schedule (initialState g))) \<le> 1 \<and>
   (\<forall>i < length chainIDs. \<forall>r.
      pcOf (exec env chainIDs schedule (initialState g)) i = Returned r \<longrightarrow>
      (\<exists>c \<in> set chainIDs.
         initRuns (exec env chainIDs schedule (initialState g)) = [c] \<and>
         r = fst (initEVM env c g) \<and>
         globals (exec env chainIDs schedule (initialState g)) = snd (initEVM env c g))) \<and>
   ((\<exists>i < length chainIDs. \<forall>r. pcOf (exec env chainIDs schedule (initialState g)) i \<noteq> Returned r) \<longrightarrow>
      (\<exists>j < length chainIDs.
         stepCall env chainIDs j (exec env chainIDs schedule (initialState g))
           \<noteq> exec env chainIDs schedule (initialState g))) \<and>
   (\<forall>j. stepCall env chainIDs j (exec env chainIDs schedule (initialState g))
           \<noteq> exec env chainIDs schedule (initialState g) \<longrightarrow>
        remainingSteps chainIDs (stepCall env chainIDs j (exec env chainIDs schedule (initialState g)))
          < remainingSteps chainIDs (exec env chainIDs schedule (initialState g)))"
proof -
  let ?s = "exec env chainIDs schedule (initialState g)"
  have inv: "onceInv env chainIDs g ?s"
    by (rule onceInv_exec[OF onceInv_initial])
  show ?thesis
    using onceInv_runs[OF inv] onceInv_returned[OF inv] onceInv_progress[OF inv]
      step_decreases[of env chainIDs _ ?s]
    by blast
qed

text \<open>
  In the instance the call with the unknown chain ID wins the race: both calls return
  its unknown-chain-id error, and \<^verbatim>\<open>initEVM\<close> ran once, for that chain ID.
\<close>

theorem EVMAppOptions_once_witness:
  "pcOf (exec demoEnv demoChainIDs demoSchedule (initialState [])) 0 = Returned unknownOsmosis \<and>
   pcOf (exec demoEnv demoChainIDs demoSchedule (initialState [])) 1 = Returned unknownOsmosis \<and>
   initRuns (exec demoEnv demoChainIDs demoSchedule (initialState [])) = [''osmosis-1''] \<and>
   unknownOsmosis = fst (initEVM demoEnv ''osmosis-1'' []) \<and>
   pcOf (exec demoEnv demoChainIDs [] (initialState [])) 0 = DoLoadDone \<and>
   stepCall demoEnv demoChainIDs 0 (exec demoEnv demoChainIDs [] (initialState []))
     \<noteq> exec demoEnv demoChainIDs [] (initialState []) \<and>
   remainingSteps demoChainIDs (stepCall demoEnv demoChainIDs 0
       (exec demoEnv demoChainIDs [] (initialState [])))
     < remainingSteps demoChainIDs (exec demoEnv demoChainIDs [] (initialState []))"
proof -
  let ?s = "exec demoEnv demoChainIDs demoSchedule (initialState [])"
  let ?start = "exec demoEnv demoChainIDs [] (initialState [])"
  have r0: "pcOf ?s 0 = Returned unknownOsmosis" using demo_exec by simp
  have n: "0 < length demoChainIDs" by (simp add: demoChainIDs_def)
  from EVMAppOptions_once[of demoEnv demoChainIDs demoSchedule "[]"] n r0
  obtain c where "initRuns ?s = [c]" "unknownOsmosis = fst (initEVM demoEnv c [])"
    by blast
  with demo_exec have a: "unknownOsmosis = fst (initEVM demoEnv ''osmosis-1'' [])" by simp
  have p0: "pcOf ?start 0 = DoLoadDone" by (simp add: exec_def initialState_def)
  have "pcOf (stepCall demoEnv demoChainIDs 0 ?start) 0 = SlowLock"
    by (simp add: exec_def initialState_def stepCall_def demoChainIDs_def)
  with p0 have ne: "stepCall demoEnv demoChainIDs 0 ?start \<noteq> ?start" by auto
  with EVMAppOptions_once[of demoEnv demoChainIDs "[]" "[]"]
  have "remainingSteps demoChainIDs (stepCall demoEnv demoChainIDs 0 ?start)
          < remainingSteps demoChainIDs ?start"
    by blast
  with demo_exec a p0 ne show ?thesis by simp
qed

section \<open>The two constructors agree\<close>

text \<open>
  Claim C9. The inline \<open>NewAnteHandler\<close> and the delegating \<open>NewAnteHandler\<close>, given
  options that carry the same values, return the same result: the same error for the
  same missing option, and otherwise handlers that are equal as functions, so that they
  return equal results for every context, transaction, flag and world.
\<close>

theorem NewAnteHandler_inline_eq: "NewAnteHandler_inline ah options = NewAnteHandler ah (toAnteOptions options)"
  unfolding NewAnteHandler_inline_def NewAnteHandler_def inline_tail toAnteOptions_sel
  by (rule refl)

section \<open>Unknown chain IDs\<close>

text \<open>
  Claim C10. \<open>initEVM\<close> treats the empty chain ID as the default chain ID
  \<^verbatim>\<open>kudora_12000-1\<close>. It returns the unknown-chain-id error if and only if neither the text
  of the chain ID before its first \<^verbatim>\<open>-\<close> nor the whole chain ID is a key of
  \<open>ChainsCoinInfo\<close>; and then the process-wide state is the one it was called in,
  whatever registering a denomination or configuring the EVM would do: it returned
  before either.
\<close>

theorem initEVM_unknown_chain:
  "initEVM env [] g = initEVM env DefaultChainID g \<and>
   (unknownChainIdError (fst (initEVM env chainID g)) \<longleftrightarrow> \<not> knownChain (effectiveChainID chainID)) \<and>
   (\<not> knownChain (effectiveChainID chainID) \<longrightarrow>
      initEVM env chainID g =
        (Some (Errorf ''unknown chain id: %s (not found in ChainsCoinInfo)''
                 [effectiveChainID chainID] None), g))"
proof -
  have "initEVM env [] g = initEVM env DefaultChainID g"
    by (simp add: initEVM_def DefaultChainID_def)
  moreover have "unknownChainIdError (fst (initEVM env chainID g))"
    if "\<not> knownChain (effectiveChainID chainID)"
    using initEVM_unknown[OF that, of env g] by simp
  ultimately show ?thesis
    using initEVM_known[of chainID env g] initEVM_unknown[of chainID env g] by blast
qed

theorem initEVM_unknown_chain_witness:
  "\<not> knownChain (effectiveChainID ''osmosis-1'') \<and>
   initEVM demoEnv ''osmosis-1'' []
     = (Some (Errorf ''unknown chain id: %s (not found in ChainsCoinInfo)'' [''osmosis-1''] None), []) \<and>
   knownChain (effectiveChainID []) \<and>
   initEVM demoEnv [] [] = (None, [''denom kudos'', ''denom kud'', ''configured''])"
proof -
  have u: "\<not> knownChain (effectiveChainID ''osmosis-1'')"
    by (simp add: knownChain_def effectiveChainID_def ChainsCoinInfo_def DefaultChainID_def dom_def)
  have k: "knownChain (effectiveChainID [])"
    by (simp add: knownChain_def effectiveChainID_def ChainsCoinInfo_def DefaultChainID_def dom_def)
  have e: "effectiveChainID ''osmosis-1'' = ''osmosis-1''"
    by (simp add: effectiveChainID_def)
  have v: "initEVM demoEnv [] [] = (None, [''denom kudos'', ''denom kud'', ''configured''])"
    by (simp add: initEVM_def DefaultChainID_def ChainsCoinInfo_def setBaseDenom_def
        parseEVMChainID_def demoEnv_def Let_def BaseDenom_def DisplayDenom_def
        NewEVMConfigurator_def WithChainConfig_def WithEVMCoinInfo_def)
  from initEVM_unknown_chain[of demoEnv "[]" "''osmosis-1''"] u k e v
  show ?thesis by simp
qed

end
